theory Spec2Isabelle
  imports Complex_Main
begin

section \<open>JavaScript strings\<close>

text \<open>
  A JavaScript string is a sequence of UTF-16 code units; a code unit is a natural number
  below 65536.  String constants of the source are written \<open>str ''...''\<close>.
  Diagnostic messages are never inspected by the program and are kept as HOL strings.
\<close>

type_synonym jstring = "nat list"

definition str :: "string \<Rightarrow> jstring" where
  "str s = map of_char s"

definition ch :: "char \<Rightarrow> nat" where
  "ch c = of_char c"

text \<open>\<open>s[i]\<close>: the code unit at index \<open>i\<close>, \<open>None\<close> (undefined) out of range.\<close>

definition char_at :: "jstring \<Rightarrow> nat \<Rightarrow> nat option" where
  "char_at s i = (if i < length s then Some (s ! i) else None)"

text \<open>The character classes \<open>/\<bslash>d/\<close>, \<open>SPACE = /[\<bslash>u0020\<bslash>t\<bslash>f]/\<close>.\<close>

definition is_digit :: "nat \<Rightarrow> bool" where
  "is_digit c = (48 \<le> c \<and> c \<le> 57)"

definition is_SPACE :: "nat \<Rightarrow> bool" where
  "is_SPACE c = (c = 32 \<or> c = 9 \<or> c = 12)"

text \<open>
  \<open>parseInt(v, 10)\<close> on a run of decimal digits (the only strings the timestamp scanner
  hands to it): the number the digits denote.  Numbers are exact rationals here; the
  rounding of IEEE doubles is not part of the model.
\<close>

definition parseInt_digits :: "jstring \<Rightarrow> nat" where
  "parseInt_digits v = foldl (\<lambda>a c. 10 * a + (c - 48)) 0 v"

section \<open>Timings and settings scanner: timestamps\<close>

text \<open>
  A diagnostic raised by a line scanner: the message and the column \<open>pos + 1\<close> handed to
  the error handler.
\<close>

type_synonym diag = "string \<times> nat"

text \<open>
  \<open>#collect(pattern)\<close> at cursor \<open>pos\<close>: the longest run of matching characters from
  \<open>pos\<close>; the cursor moves past it.  \<open>#skip\<close> moves the cursor the same way.
\<close>

definition collect :: "(nat \<Rightarrow> bool) \<Rightarrow> jstring \<Rightarrow> nat \<Rightarrow> jstring" where
  "collect p line pos = takeWhile p (drop pos line)"

definition skip :: "(nat \<Rightarrow> bool) \<Rightarrow> jstring \<Rightarrow> nat \<Rightarrow> nat" where
  "skip p line pos = pos + length (takeWhile p (drop pos line))"

text \<open>Steps 13 to 17 of \<open>#timestamp\<close>, after the three leading fields are settled.\<close>

definition timestamp_tail ::
  "jstring \<Rightarrow> nat \<Rightarrow> jstring \<Rightarrow> jstring \<Rightarrow> jstring \<Rightarrow> rat option \<times> nat \<times> diag list" where
  \<open>timestamp_tail line pos val1 val2 val3 =
    (if char_at line pos \<noteq> Some (ch CHR ''.'')
     then (None, pos, [(''No decimal separator (".") found.'', pos + 1)])
     else
       let pos1 = pos + 1;
           val4 = collect is_digit line pos1;
           pos2 = pos1 + length val4
       in
         if length val4 \<noteq> 3
         then (None, pos2, [(''Milliseconds must be given in three digits.'', pos2 + 1)])
         else if parseInt_digits val2 > 59
         then (None, pos2, [(''You cannot have more than 59 minutes.'', pos2 + 1)])
         else if parseInt_digits val3 > 59
         then (None, pos2, [(''You cannot have more than 59 seconds.'', pos2 + 1)])
         else (Some (of_nat (parseInt_digits val1) * 60 * 60
                      + of_nat (parseInt_digits val2) * 60
                      + of_nat (parseInt_digits val3)
                      + of_nat (parseInt_digits val4) / 1000),
               pos2, []))\<close>

text \<open>
  \<open>#timestamp()\<close>: the value (\<open>None\<close> for undefined), the cursor afterwards and
  the diagnostics raised.
\<close>

definition timestamp :: "jstring \<Rightarrow> nat \<Rightarrow> rat option \<times> nat \<times> diag list" where
  "timestamp line pos =
    (case char_at line pos of
       None \<Rightarrow> (None, pos, [(''No timestamp found.'', pos + 1)])
     | Some c \<Rightarrow>
        if \<not> is_digit c
        then (None, pos, [(''Timestamp must start with a character in the range 0-9.'', pos + 1)])
        else
          let val1 = collect is_digit line pos;
              pos1 = pos + length val1;
              hours = (length val1 > 2 \<or> parseInt_digits val1 > 59)
          in
            if char_at line pos1 \<noteq> Some (ch CHR '':'')
            then (None, pos1, [(''No time unit separator found.'', pos1 + 1)])
            else
              let pos2 = pos1 + 1;
                  val2 = collect is_digit line pos2;
                  pos3 = pos2 + length val2
              in
                if length val2 \<noteq> 2
                then (None, pos3, [(''Must be exactly two digits.'', pos3 + 1)])
                else if hours \<or> char_at line pos3 = Some (ch CHR '':'')
                then
                  (if char_at line pos3 \<noteq> Some (ch CHR '':'')
                   then (None, pos3,
                         [(''No seconds found or minutes is greater than 59.'', pos3 + 1)])
                   else
                     let pos4 = pos3 + 1;
                         val3 = collect is_digit line pos4;
                         pos5 = pos4 + length val3
                     in
                       if length val3 \<noteq> 2
                       then (None, pos5, [(''Must be exactly two digits.'', pos5 + 1)])
                       else timestamp_tail line pos5 val1 val2 val3)
                else if length val1 \<noteq> 2
                then (None, pos3, [(''Must be exactly two digits.'', pos3 + 1)])
                else timestamp_tail line pos3 (str ''0'') val1 val2)"


section \<open>JavaScript numbers and their conversions\<close>

text \<open>
  A Number is \<open>NaN\<close>, an infinity or a finite value.  Finite values are kept as exact
  rationals: the rounding of IEEE doubles to 53 bits is not part of the model, so the model
  agrees with the program wherever the doubles involved are exact or far enough apart
  (times of millisecond resolution below about \<open>10^9\<close> hours, setting values of up to
  15 significant digits).  Negative zero is identified with zero; the program never
  distinguishes them.
\<close>

datatype number = NaN | Infinity | NegInfinity | Fin rat

text \<open>A value too large for a double becomes an infinity when a string is converted.\<close>

definition mk_number :: "rat \<Rightarrow> number" where
  "mk_number q =
    (if 2 ^ 1024 - 2 ^ 970 \<le> \<bar>q\<bar> then (if 0 < q then Infinity else NegInfinity) else Fin q)"

text \<open>\<open>a < b\<close> on Numbers: false as soon as one side is \<open>NaN\<close>.\<close>

fun num_less :: "number \<Rightarrow> number \<Rightarrow> bool" where
  "num_less (Fin x) (Fin y) = (x < y)"
| "num_less (Fin x) Infinity = True"
| "num_less NegInfinity (Fin y) = True"
| "num_less NegInfinity Infinity = True"
| "num_less _ _ = False"

text \<open>White space and line terminators, as \<open>parseInt\<close>, \<open>parseFloat\<close> and
  \<open>Number\<close> trim them.\<close>

definition is_js_ws :: "nat \<Rightarrow> bool" where
  "is_js_ws c =
    (c = 9 \<or> c = 10 \<or> c = 11 \<or> c = 12 \<or> c = 13 \<or> c = 32 \<or> c = 160 \<or> c = 5760
     \<or> (8192 \<le> c \<and> c \<le> 8202) \<or> c = 8232 \<or> c = 8233 \<or> c = 8239 \<or> c = 8287
     \<or> c = 12288 \<or> c = 65279)"

definition trim :: "jstring \<Rightarrow> jstring" where
  "trim s = rev (dropWhile is_js_ws (rev (dropWhile is_js_ws s)))"

text \<open>An optional sign: whether it is \<open>-\<close>, and the rest.\<close>

definition scan_sign :: "jstring \<Rightarrow> bool \<times> jstring" where
  "scan_sign s =
    (case s of
       [] \<Rightarrow> (False, [])
     | c # r \<Rightarrow> if c = ch CHR ''-'' then (True, r)
                else if c = ch CHR ''+'' then (False, r)
                else (False, s))"

text \<open>\<open>parseInt(s, 10)\<close>.\<close>

definition js_parseInt10 :: "jstring \<Rightarrow> number" where
  "js_parseInt10 s =
    (let (neg, t) = scan_sign (dropWhile is_js_ws s);
         z = takeWhile is_digit t
     in if z = [] then NaN
        else mk_number (if neg then - of_nat (parseInt_digits z) else of_nat (parseInt_digits z)))"

text \<open>
  The longest prefix of \<open>s\<close> that is a \<open>StrDecimalLiteral\<close> of the language
  definition (sign, then \<open>Infinity\<close> or digits with an optional fraction and an optional
  exponent), with its value and the rest of the string.
\<close>

definition scan_mantissa :: "jstring \<Rightarrow> (rat \<times> jstring) option" where
  "scan_mantissa s =
    (let ip = takeWhile is_digit s;
         r1 = dropWhile is_digit s
     in if r1 \<noteq> [] \<and> hd r1 = ch CHR ''.''
        then
          let fp = takeWhile is_digit (tl r1);
              r2 = dropWhile is_digit (tl r1)
          in if ip = [] \<and> fp = [] then None
             else Some (of_nat (parseInt_digits ip)
                         + of_nat (parseInt_digits fp) / 10 ^ length fp, r2)
        else if ip = [] then None
        else Some (of_nat (parseInt_digits ip), r1))"

definition scan_exponent :: "jstring \<Rightarrow> int \<times> jstring" where
  "scan_exponent s =
    (case s of
       [] \<Rightarrow> (0, s)
     | e # r \<Rightarrow>
        if e = ch CHR ''e'' \<or> e = ch CHR ''E''
        then
          let (neg, r') = scan_sign r;
              ds = takeWhile is_digit r'
          in if ds = [] then (0, s)
             else ((if neg then - int (parseInt_digits ds) else int (parseInt_digits ds)),
                   dropWhile is_digit r')
        else (0, s))"

definition scale10 :: "rat \<Rightarrow> int \<Rightarrow> rat" where
  "scale10 m e = (if 0 \<le> e then m * 10 ^ nat e else m / 10 ^ nat (- e))"

definition scan_decimal :: "jstring \<Rightarrow> (number \<times> jstring) option" where
  "scan_decimal s =
    (let (neg, t) = scan_sign s
     in if take 8 t = str ''Infinity''
        then Some (if neg then NegInfinity else Infinity, drop 8 t)
        else
          (case scan_mantissa t of
             None \<Rightarrow> None
           | Some (m, r) \<Rightarrow>
              let (e, r') = scan_exponent r
              in Some (mk_number (if neg then - scale10 m e else scale10 m e), r')))"

text \<open>\<open>parseFloat(s)\<close>.\<close>

definition js_parseFloat :: "jstring \<Rightarrow> number" where
  "js_parseFloat s =
    (case scan_decimal (dropWhile is_js_ws s) of None \<Rightarrow> NaN | Some (v, r) \<Rightarrow> v)"

text \<open>The non-decimal integer literals \<open>0x..\<close>, \<open>0o..\<close>, \<open>0b..\<close> of \<open>Number(s)\<close>.\<close>

definition digit_value :: "nat \<Rightarrow> nat option" where
  "digit_value c =
    (if 48 \<le> c \<and> c \<le> 57 then Some (c - 48)
     else if 97 \<le> c \<and> c \<le> 102 then Some (c - 87)
     else if 65 \<le> c \<and> c \<le> 70 then Some (c - 55)
     else None)"

definition radix_value :: "nat \<Rightarrow> jstring \<Rightarrow> nat option" where
  "radix_value r ds =
    (if ds \<noteq> [] \<and> (\<forall>c \<in> set ds. case digit_value c of None \<Rightarrow> False | Some d \<Rightarrow> d < r)
     then Some (foldl (\<lambda>a c. r * a + the (digit_value c)) 0 ds)
     else None)"

definition scan_nondecimal :: "jstring \<Rightarrow> nat option" where
  "scan_nondecimal s =
    (case s of
       z # x # ds \<Rightarrow>
         if z \<noteq> ch CHR ''0'' then None
         else if x = ch CHR ''x'' \<or> x = ch CHR ''X'' then radix_value 16 ds
         else if x = ch CHR ''o'' \<or> x = ch CHR ''O'' then radix_value 8 ds
         else if x = ch CHR ''b'' \<or> x = ch CHR ''B'' then radix_value 2 ds
         else None
     | _ \<Rightarrow> None)"

text \<open>\<open>Number(s)\<close> on a string, and the global \<open>isNaN\<close> and \<open>isFinite\<close> on
  a string, which convert it first.\<close>

definition js_Number :: "jstring \<Rightarrow> number" where
  "js_Number s =
    (let t = trim s
     in if t = [] then Fin 0
        else
          (case scan_decimal t of
             Some (v, []) \<Rightarrow> v
           | _ \<Rightarrow> (case scan_nondecimal t of Some n \<Rightarrow> mk_number (of_nat n) | None \<Rightarrow> NaN)))"

definition js_isNaN :: "jstring \<Rightarrow> bool" where
  "js_isNaN s = (js_Number s = NaN)"

definition js_isFinite :: "jstring \<Rightarrow> bool" where
  "js_isFinite s = (case js_Number s of Fin q \<Rightarrow> True | _ \<Rightarrow> False)"

text \<open>
  Number to string.  \<open>dec_digits n\<close> are the decimal digits of \<open>n\<close>, most significant
  first; \<open>frac_digits\<close> expands a fraction below 1 until it is exhausted (at most
  \<open>fuel\<close> digits).  \<open>number_toString\<close> follows \<open>Number::toString\<close>: with
  \<open>k\<close> significant digits \<open>ds\<close> and decimal exponent \<open>n\<close>, plain notation for
  \<open>-6 < n \<le> 21\<close> and exponent notation otherwise.
\<close>

fun dec_digits :: "nat \<Rightarrow> nat list" where
  "dec_digits n = (if n < 10 then [n] else dec_digits (n div 10) @ [n mod 10])"

declare dec_digits.simps [simp del]

definition nat_toString :: "nat \<Rightarrow> jstring" where
  "nat_toString n = map (\<lambda>d. 48 + d) (dec_digits n)"

fun frac_digits :: "nat \<Rightarrow> rat \<Rightarrow> nat list" where
  "frac_digits 0 r = []"
| "frac_digits (Suc fuel) r =
    (if r = 0 then []
     else nat \<lfloor>r * 10\<rfloor> # frac_digits fuel (r * 10 - of_int \<lfloor>r * 10\<rfloor>))"

definition strip_zeros :: "nat list \<Rightarrow> nat list" where
  "strip_zeros ds = rev (dropWhile (\<lambda>d. d = 0) (rev ds))"

definition digit_chars :: "nat list \<Rightarrow> jstring" where
  "digit_chars ds = map (\<lambda>d. 48 + d) ds"

definition format_digits :: "nat list \<Rightarrow> int \<Rightarrow> jstring" where
  "format_digits ds n =
    (let k = int (length ds)
     in if k \<le> n \<and> n \<le> 21 then digit_chars ds @ replicate (nat (n - k)) 48
        else if 0 < n \<and> n \<le> 21
        then digit_chars (take (nat n) ds) @ str ''.'' @ digit_chars (drop (nat n) ds)
        else if - 6 < n \<and> n \<le> 0
        then str ''0.'' @ replicate (nat (- n)) 48 @ digit_chars ds
        else
          digit_chars (take 1 ds)
          @ (if k = 1 then [] else str ''.'' @ digit_chars (drop 1 ds))
          @ str ''e'' @ (if 0 \<le> n - 1 then str ''+'' else str ''-'')
          @ nat_toString (nat \<bar>n - 1\<bar>))"

definition pos_toString :: "rat \<Rightarrow> jstring" where
  "pos_toString q =
    (let ip = nat \<lfloor>q\<rfloor>;
         fr = frac_digits 1100 (q - of_nat ip)
     in if 0 < ip
        then format_digits (strip_zeros (dec_digits ip @ fr)) (int (length (dec_digits ip)))
        else format_digits (strip_zeros (dropWhile (\<lambda>d. d = 0) fr))
               (- int (length (takeWhile (\<lambda>d. d = 0) fr))))"

definition number_toString :: "number \<Rightarrow> jstring" where
  "number_toString x =
    (case x of
       NaN \<Rightarrow> str ''NaN''
     | Infinity \<Rightarrow> str ''Infinity''
     | NegInfinity \<Rightarrow> str ''-Infinity''
     | Fin q \<Rightarrow> if q = 0 then str ''0''
                else if q < 0 then str ''-'' @ pos_toString (- q)
                else pos_toString q)"


section \<open>Cues\<close>

text \<open>
  The markup tree of a cue.  An element carries its name, its classes, its \<open>value\<close>
  property (set for \<open>v\<close> and \<open>lang\<close> only) and its children.
\<close>

datatype node =
    Text jstring
  | Object jstring "jstring list" "jstring option" "node list"
  | Timestamp rat

text \<open>\<open>linePosition\<close> and \<open>textPosition\<close> hold the string \<open>'auto'\<close> or a Number.\<close>

datatype auto_or_number = Auto | Val number

text \<open>
  A cue.  \<open>cue_id\<close> is \<open>None\<close> for \<open>null\<close> or \<open>undefined\<close>, which the
  serializer tests for; \<open>nonSerializable\<close> is \<open>None\<close> while the property is absent.
\<close>

record cue =
  direction :: jstring
  snapToLines :: bool
  linePosition :: auto_or_number
  lineAlign :: jstring
  textPosition :: auto_or_number
  positionAlign :: jstring
  cue_size :: number
  alignment :: jstring
  cue_id :: "jstring option"
  startTime :: rat
  endTime :: rat
  pauseOnExit :: bool
  cue_text :: jstring
  tree :: "node list"
  nonSerializable :: "bool option"

text \<open>The object literal of the cue loop: \<open>defaultCueSettings\<close> and the empty fields.\<close>

definition new_cue :: cue where
  "new_cue =
    \<lparr> direction = str ''horizontal'',
      snapToLines = True,
      linePosition = Auto,
      lineAlign = str ''start'',
      textPosition = Auto,
      positionAlign = str ''auto'',
      cue_size = Fin 100,
      alignment = str ''center'',
      cue_id = Some [],
      startTime = 0,
      endTime = 0,
      pauseOnExit = False,
      cue_text = [],
      tree = [],
      nonSerializable = None \<rparr>"

section \<open>String operations of the settings parser\<close>

text \<open>\<open>s.split(sep)\<close> for a separator that matches single characters: the pieces
  between the separators, one piece (the empty one) for the empty string.\<close>

fun split_on :: "(nat \<Rightarrow> bool) \<Rightarrow> jstring \<Rightarrow> jstring list" where
  "split_on p [] = [[]]"
| "split_on p (c # cs) =
    (if p c then [] # split_on p cs
     else (case split_on p cs of [] \<Rightarrow> [[c]] | w # ws \<Rightarrow> (c # w) # ws))"

text \<open>\<open>s.indexOf(c, from)\<close> for a single character: the first index at or after
  \<open>from\<close>, or \<open>-1\<close>.\<close>

fun index_from :: "nat \<Rightarrow> jstring \<Rightarrow> nat \<Rightarrow> int" where
  "index_from c [] i = - 1"
| "index_from c (x # xs) i = (if x = c then int i else index_from c xs (Suc i))"

definition indexOf_char :: "jstring \<Rightarrow> nat \<Rightarrow> nat \<Rightarrow> int" where
  "indexOf_char s c from = index_from c (drop from s) from"

text \<open>\<open>s.slice(start, end)\<close>: a negative index counts from the end of the string.\<close>

definition slice_index :: "jstring \<Rightarrow> int \<Rightarrow> nat" where
  "slice_index s i = (if i < 0 then nat (int (length s) + i) else min (nat i) (length s))"

definition slice :: "jstring \<Rightarrow> int \<Rightarrow> int \<Rightarrow> jstring" where
  "slice s start end = drop (slice_index s start) (take (slice_index s end) s)"

definition slice_from :: "jstring \<Rightarrow> int \<Rightarrow> jstring" where
  "slice_from s start = drop (slice_index s start) s"

text \<open>\<open>s[s.length - 1]\<close>, undefined for the empty string.\<close>

definition last_char :: "jstring \<Rightarrow> nat option" where
  "last_char s = (if s = [] then None else Some (last s))"

text \<open>The test \<open>/^[-\<bslash>d](\<bslash>d*)(\<bslash>.\<bslash>d+)?%?$/\<close> of the \<open>line\<close> setting.\<close>

definition opt_percent_end :: "jstring \<Rightarrow> bool" where
  "opt_percent_end r = (r = [] \<or> r = str ''%'')"

definition line_value_regex :: "jstring \<Rightarrow> bool" where
  "line_value_regex v =
    (case v of
       [] \<Rightarrow> False
     | c # r \<Rightarrow>
        (c = ch CHR ''-'' \<or> is_digit c) \<and>
        (let r1 = dropWhile is_digit r
         in if r1 \<noteq> [] \<and> hd r1 = ch CHR ''.''
            then takeWhile is_digit (tl r1) \<noteq> [] \<and> opt_percent_end (dropWhile is_digit (tl r1))
            else opt_percent_end r1))"

section \<open>Timings and settings scanner: settings\<close>

text \<open>
  One settings token with a non-empty value, dispatched on its key.  \<open>col\<close> is the
  column reported by \<open>#err\<close>; \<open>pa\<close> is the function-scoped variable
  \<open>positionAlign\<close> (declared with \<open>var\<close>, so it outlives the loop iteration),
  which the \<open>position\<close> branch may assign.  Every \<open>continue\<close> of the source leaves
  the cue as it is.
\<close>

definition setting_vertical :: "nat \<Rightarrow> jstring \<Rightarrow> cue \<Rightarrow> cue \<times> diag list" where
  "setting_vertical col v cue =
    (if v \<noteq> str ''rl'' \<and> v \<noteq> str ''lr''
     then (cue, [(''Writing direction can only be set to 'rl' or 'rl'.'', col)])
     else (cue\<lparr>direction := v\<rparr>, []))"

definition setting_line :: "nat \<Rightarrow> jstring \<Rightarrow> cue \<Rightarrow> cue \<times> diag list" where
  "setting_line col v cue =
    (let comp = split_on (\<lambda>c. c = ch CHR '','') v;
         has_comma = (ch CHR '','' \<in> set v);
         val = (if has_comma then comp ! 0 else v);
         la = (if has_comma then Some (comp ! 1) else None)
     in
       if \<not> line_value_regex val
       then (cue, [(''Line position takes a number or percentage.'', col)])
       else if indexOf_char val (ch CHR ''-'') 1 \<noteq> - 1
       then (cue, [(''Line position can only have '-' at the start.'', col)])
       else if indexOf_char val (ch CHR ''%'') 0 \<noteq> - 1
               \<and> indexOf_char val (ch CHR ''%'') 0 \<noteq> int (length val) - 1
       then (cue, [(''Line position can only have '%' at the end.'', col)])
       else if char_at val 0 = Some (ch CHR ''-'') \<and> last_char val = Some (ch CHR ''%'')
       then (cue, [(''Line position cannot be a negative percentage.'', col)])
       else
         let isPercent = (last_char val = Some (ch CHR ''%''));
             numVal = (if isPercent then slice val 0 (int (length val) - 1) else val)
         in
           if isPercent \<and> num_less (Fin 100) (js_parseInt10 val)
           then (cue, [(''Line position cannot be >100%.'', col)])
           else if numVal = [] \<or> js_isNaN numVal \<or> \<not> js_isFinite numVal
           then (cue, [(''Line position needs to be a number'', col)])
           else if la \<noteq> None \<and> la \<notin> {Some (str ''start''), Some (str ''center''), Some (str ''end'')}
           then (cue, [(''Line alignment needs to be one of start, center or end'', col)])
           else
             let cue1 = (case la of None \<Rightarrow> cue | Some a \<Rightarrow> cue\<lparr>lineAlign := a\<rparr>);
                 cue2 = cue1\<lparr>snapToLines := \<not> isPercent,
                             linePosition := Val (js_parseFloat numVal)\<rparr>
             in (if number_toString (js_parseFloat numVal) \<noteq> numVal
                 then cue2\<lparr>nonSerializable := Some True\<rparr> else cue2, []))"

definition setting_position ::
  "nat \<Rightarrow> jstring \<Rightarrow> jstring option \<Rightarrow> cue \<Rightarrow> (cue \<times> jstring option) \<times> diag list" where
  "setting_position col v pa cue =
    (let comp = split_on (\<lambda>c. c = ch CHR '','') v;
         has_comma = (ch CHR '','' \<in> set v);
         val = (if has_comma then comp ! 0 else v);
         pa1 = (if has_comma then Some (comp ! 1) else pa)
     in
       if last_char val \<noteq> Some (ch CHR ''%'')
       then ((cue, pa1), [(''Text position must be a percentage.'', col)])
       else if num_less (Fin 100) (js_parseInt10 val) \<or> num_less (js_parseInt10 val) (Fin 0)
       then ((cue, pa1), [(''Text position needs to be between 0 and 100%.'', col)])
       else
         let numVal = slice val 0 (int (length val) - 1)
         in
           if numVal = [] \<or> js_isNaN numVal \<or> \<not> js_isFinite numVal
           then ((cue, pa1), [(''Line position needs to be a number'', col)])
           else if pa1 \<noteq> None
                   \<and> pa1 \<notin> {Some (str ''line-left''), Some (str ''center''), Some (str ''line-right'')}
           then ((cue, pa1),
                 [(''Position alignment needs to be one of line-left, center or line-right'', col)])
           else
             let cue1 = (case pa1 of None \<Rightarrow> cue | Some a \<Rightarrow> cue\<lparr>positionAlign := a\<rparr>)
             in ((cue1\<lparr>textPosition := Val (js_parseFloat numVal)\<rparr>, pa1), []))"

definition setting_size :: "nat \<Rightarrow> jstring \<Rightarrow> cue \<Rightarrow> cue \<times> diag list" where
  "setting_size col v cue =
    (if last_char v \<noteq> Some (ch CHR ''%'')
     then (cue, [(''Size must be a percentage.'', col)])
     else if num_less (Fin 100) (js_parseInt10 v)
     then (cue, [(''Size cannot be >100%.'', col)])
     else
       let sz = slice v 0 (int (length v) - 1)
       in
         if sz = [] \<or> js_isNaN sz
         then (cue, [(''Size needs to be a number'', col)])
         else if num_less (js_parseFloat sz) (Fin 0) \<or> num_less (Fin 100) (js_parseFloat sz)
         then (cue, [(''Size needs to be between 0 and 100%.'', col)])
         else (cue\<lparr>cue_size := js_parseFloat sz\<rparr>, []))"

definition setting_align :: "nat \<Rightarrow> jstring \<Rightarrow> cue \<Rightarrow> cue \<times> diag list" where
  "setting_align col v cue =
    (if v \<notin> {str ''start'', str ''center'', str ''end'', str ''left'', str ''right''}
     then (cue, [(''Alignment can only be set to one of start, center, end, left, right.'', col)])
     else (cue\<lparr>alignment := v\<rparr>, []))"

definition apply_setting ::
  "nat \<Rightarrow> jstring \<Rightarrow> jstring \<Rightarrow> jstring option \<Rightarrow> cue \<Rightarrow> (cue \<times> jstring option) \<times> diag list" where
  "apply_setting col setting v pa cue =
    (if setting = str ''vertical''
     then (let (c, ds) = setting_vertical col v cue in ((c, pa), ds))
     else if setting = str ''line''
     then (let (c, ds) = setting_line col v cue in ((c, pa), ds))
     else if setting = str ''position'' then setting_position col v pa cue
     else if setting = str ''size''
     then (let (c, ds) = setting_size col v cue in ((c, pa), ds))
     else if setting = str ''align''
     then (let (c, ds) = setting_align col v cue in ((c, pa), ds))
     else ((cue, pa), [(''Invalid setting.'', col)]))"

text \<open>The key and the value of a token: \<open>slice(0, index)\<close> and \<open>slice(index + 1)\<close>
  around the first colon (\<open>index = -1\<close> when there is none).\<close>

definition setting_key :: "jstring \<Rightarrow> jstring" where
  "setting_key tok = slice tok 0 (indexOf_char tok (ch CHR '':'') 0)"

definition setting_value :: "jstring \<Rightarrow> jstring" where
  "setting_value tok = slice_from tok (indexOf_char tok (ch CHR '':'') 0 + 1)"

text \<open>
  The loop of \<open>#parseSettings\<close> over the tokens, with the keys seen so far and the
  variable \<open>positionAlign\<close>.  An empty token is skipped; an empty value ends the
  function.
\<close>

fun parseSettings_loop ::
  "nat \<Rightarrow> jstring list \<Rightarrow> jstring list \<Rightarrow> jstring option \<Rightarrow> cue \<Rightarrow> cue \<times> diag list" where
  "parseSettings_loop col [] seen pa cue = (cue, [])"
| "parseSettings_loop col (tok # rest) seen pa cue =
    (if tok = [] then parseSettings_loop col rest seen pa cue
     else
       let setting = setting_key tok;
           v = setting_value tok;
           dup = (if setting \<in> set seen then [(''Duplicate setting.'', col)] else [])
       in
         if v = [] then (cue, dup @ [(''No value for setting defined.'', col)])
         else
           let ((cue1, pa1), ds) = apply_setting col setting v pa cue;
               (cue2, ds2) = parseSettings_loop col rest (seen @ [setting]) pa1 cue1
           in (cue2, dup @ ds @ ds2))"

definition parseSettings :: "nat \<Rightarrow> jstring \<Rightarrow> cue \<Rightarrow> cue \<times> diag list" where
  "parseSettings col input cue = parseSettings_loop col (split_on is_SPACE input) [] None cue"

section \<open>Timings and settings scanner: the timing line\<close>

text \<open>\<open>NOSPACE.test(line[pos])\<close>: at the end of the line the argument is
  \<open>undefined\<close>, whose string form matches.\<close>

definition NOSPACE_test :: "nat option \<Rightarrow> bool" where
  "NOSPACE_test c = (case c of None \<Rightarrow> True | Some x \<Rightarrow> \<not> is_SPACE x)"

text \<open>The three characters of the separator, one test each.\<close>

definition separator_at :: "jstring \<Rightarrow> nat \<Rightarrow> nat option" where
  "separator_at line pos =
    (if char_at line pos \<noteq> Some (ch CHR ''-'') then Some pos
     else if char_at line (pos + 1) \<noteq> Some (ch CHR ''-'') then Some (pos + 1)
     else if char_at line (pos + 2) \<noteq> Some (ch CHR ''>'') then Some (pos + 2)
     else None)"

text \<open>
  \<open>parse(cue, previousCueStart)\<close> of the timings scanner on one line: the cue when the
  function returns \<open>true\<close>, \<open>None\<close> when it returns without a value, and the
  diagnostics in the order raised.
\<close>

definition parse_timings :: "jstring \<Rightarrow> cue \<Rightarrow> rat \<Rightarrow> cue option \<times> diag list" where
  "parse_timings line cue previousCueStart =
    (let pos0 = skip is_SPACE line 0
     in case timestamp line pos0 of
       (None, pos1, d1) \<Rightarrow> (None, d1)
     | (Some start, pos1, d1) \<Rightarrow>
        let d2 = (if start < previousCueStart
                  then [(''Start timestamp is not greater than or equal to start timestamp of previous cue.'',
                         pos1 + 1)]
                  else []);
            d3 = (if NOSPACE_test (char_at line pos1)
                  then [(''Timestamp not separated from '-->' by whitespace.'', pos1 + 1)]
                  else []);
            pos2 = skip is_SPACE line pos1
        in case separator_at line pos2 of
          Some bad \<Rightarrow> (None, d1 @ d2 @ d3 @ [(''No valid timestamp separator found.'', bad + 1)])
        | None \<Rightarrow>
           let pos3 = pos2 + 3;
               d4 = (if NOSPACE_test (char_at line pos3)
                     then [('''-->' not separated from timestamp by whitespace.'', pos3 + 1)]
                     else []);
               pos4 = skip is_SPACE line pos3
           in case timestamp line pos4 of
             (None, pos5, d5) \<Rightarrow> (None, d1 @ d2 @ d3 @ d4 @ d5)
           | (Some end, pos5, d5) \<Rightarrow>
              let d6 = (if end \<le> start
                        then [(''End timestamp is not greater than start timestamp.'', pos5 + 1)]
                        else []);
                  pos6 = skip is_SPACE line pos5;
                  (cue1, d7) = parseSettings (pos6 + 1) (drop pos6 line)
                                 (cue\<lparr>startTime := start, endTime := end\<rparr>)
              in (Some cue1, d1 @ d2 @ d3 @ d4 @ d5 @ d6 @ d7))"

text \<open>\<open>parseTimestamp()\<close>, used for a timestamp tag inside a cue text.\<close>

definition parseTimestamp :: "jstring \<Rightarrow> rat option \<times> diag list" where
  "parseTimestamp line =
    (case timestamp line 0 of
       (ts, pos, d) \<Rightarrow>
        if char_at line pos \<noteq> None
        then (None, d @ [(''Timestamp must not have trailing characters.'', pos + 1)])
        else (ts, d))"


section \<open>Sorting\<close>

text \<open>
  \<open>Array.prototype.sort\<close> with a comparator is stable.  It is modelled by the stable
  insertion sort: an element is placed in front of the first later element that the
  comparator does not put before it.
\<close>

fun insort_cmp :: "('a \<Rightarrow> 'a \<Rightarrow> rat) \<Rightarrow> 'a \<Rightarrow> 'a list \<Rightarrow> 'a list" where
  "insort_cmp cmp x [] = [x]"
| "insort_cmp cmp x (y # ys) = (if cmp x y \<le> 0 then x # y # ys else y # insort_cmp cmp x ys)"

definition js_sort :: "('a \<Rightarrow> 'a \<Rightarrow> rat) \<Rightarrow> 'a list \<Rightarrow> 'a list" where
  "js_sort cmp xs = foldr (insort_cmp cmp) xs []"

section \<open>Cue text tokenizer\<close>

datatype js_error = RangeError | TypeError

datatype mode = Metadata | Chapters

text \<open>The default entity table of the constructor, in the order of the object literal.\<close>

definition entities :: "(jstring \<times> jstring) list" where
  "entities =
    [(str ''&amp;'', str ''&''), (str ''&lt;'', str ''<''), (str ''&gt;'', str ''>''),
     (str ''&lrm;'', [8206]), (str ''&rlm;'', [8207]), (str ''&nbsp;'', [160]),
     (str ''&amp'', str ''&''), (str ''&lt'', str ''<''), (str ''&gt'', str ''>''),
     (str ''&lrm'', [8206]), (str ''&rlm'', [8207]), (str ''&nbsp'', [160])]"

text \<open>
  \<open>makeEntityRegex\<close> orders the keys by descending length and joins them into an
  alternation anchored at the start; the first alternative that is a prefix of the text
  matches.  The keys carry their replacements along here (\<open>this.entities[match[0]]\<close>).
\<close>

definition makeEntityRegex :: "(jstring \<times> jstring) list \<Rightarrow> (jstring \<times> jstring) list" where
  "makeEntityRegex es = js_sort (\<lambda>a b. of_nat (length (fst b)) - of_nat (length (fst a))) es"

definition entity_match :: "jstring \<Rightarrow> (jstring \<times> jstring) option" where
  "entity_match s = find (\<lambda>(k, r). take (length k) s = k) (makeEntityRegex entities)"

text \<open>\<open>String.fromCodePoint(n)\<close> for a natural number: a \<open>RangeError\<close> beyond
  \<open>0x10FFFF\<close>, a surrogate pair beyond the basic plane.\<close>

definition fromCodePoint :: "nat \<Rightarrow> js_error + jstring" where
  "fromCodePoint n =
    (if 1114111 < n then Inl RangeError
     else if n < 65536 then Inr [n]
     else Inr [55296 + (n - 65536) div 1024, 56320 + (n - 65536) mod 1024])"

text \<open>The group \<open>m[1]\<close> of \<open>/^&#([0-9]+)$/\<close>, and the groups of
  \<open>/^&#(x)?([0-9]+)$/\<close> (whether \<open>x\<close> is there, and the digits).\<close>

definition numeric_ref :: "jstring \<Rightarrow> jstring option" where
  "numeric_ref b =
    (case b of
       a # h # ds \<Rightarrow>
         if a = ch CHR ''&'' \<and> h = ch CHR ''#'' \<and> ds \<noteq> [] \<and> list_all is_digit ds
         then Some ds else None
     | _ \<Rightarrow> None)"

definition numeric_ref_x :: "jstring \<Rightarrow> (bool \<times> jstring) option" where
  "numeric_ref_x b =
    (case b of
       a # h # r \<Rightarrow>
         if a = ch CHR ''&'' \<and> h = ch CHR ''#''
         then (if r \<noteq> [] \<and> hd r = ch CHR ''x'' \<and> tl r \<noteq> [] \<and> list_all is_digit (tl r)
               then Some (True, tl r)
               else if r \<noteq> [] \<and> list_all is_digit r then Some (False, r)
               else None)
         else None
     | _ \<Rightarrow> None)"

text \<open>\<open>parseInt(ds, 16)\<close> on a run of decimal digits.\<close>

definition parseInt16_digits :: "jstring \<Rightarrow> nat" where
  "parseInt16_digits v = foldl (\<lambda>a c. 16 * a + (c - 48)) 0 v"

text \<open>The test \<open>/[a-z#0-9]/i\<close>.\<close>

definition is_escape_char :: "nat \<Rightarrow> bool" where
  "is_escape_char c =
    ((97 \<le> c \<and> c \<le> 122) \<or> (65 \<le> c \<and> c \<le> 90) \<or> c = 35 \<or> is_digit c)"

text \<open>\<open>buffer.split(/[\<bslash>u0020\<bslash>t\<bslash>f\<bslash>r\<bslash>n]+/).filter(Boolean).join(' ')\<close>.\<close>

definition is_annotation_space :: "nat \<Rightarrow> bool" where
  "is_annotation_space c = (c = 32 \<or> c = 9 \<or> c = 12 \<or> c = 13 \<or> c = 10)"

fun join :: "jstring \<Rightarrow> jstring list \<Rightarrow> jstring" where
  "join sep [] = []"
| "join sep [w] = w"
| "join sep (w # ws) = w @ sep @ join sep ws"

definition normalize_annotation :: "jstring \<Rightarrow> jstring" where
  "normalize_annotation b =
    join (str '' '') (filter (\<lambda>w. w \<noteq> []) (split_on is_annotation_space b))"

datatype token =
    TextToken jstring
  | StartTag jstring "jstring list" jstring
  | EndTag jstring
  | TimestampTag jstring

datatype tstate =
    Data | Escape | Tag | StartTagName | StartTagClass | StartTagAnnotation
  | EndTagName | TimestampTagName

text \<open>The variables of \<open>#nextToken\<close> and the diagnostics raised so far.\<close>

record lexer =
  lx_pos :: nat
  lx_state :: tstate
  lx_result :: jstring
  lx_buffer :: jstring
  lx_classes :: "jstring list"
  lx_errs :: "diag list"

text \<open>\<open>#err\<close> of the cue text parser: silent in metadata mode.\<close>

definition text_err :: "mode \<Rightarrow> nat \<Rightarrow> string \<Rightarrow> diag list" where
  "text_err m pos msg = (if m = Metadata then [] else [(msg, pos + 1)])"

datatype step_result = Next lexer | Done token nat "diag list" | Raise js_error

text \<open>The position after a tag: one past the closing bracket, or unchanged at the end of the text.\<close>

definition after_tag :: "nat option \<Rightarrow> nat \<Rightarrow> nat" where
  "after_tag c pos = (if c = Some (ch CHR ''>'') then pos + 1 else pos)"

definition push_class :: "jstring \<Rightarrow> jstring list \<Rightarrow> jstring list" where
  "push_class b cs = (if b \<noteq> [] then cs @ [b] else cs)"

text \<open>
  One turn of the \<open>while\<close> loop of \<open>#nextToken\<close> on the character \<open>c\<close> at the
  cursor (\<open>None\<close> at the end of the text): the loop goes on with \<open>pos + 1\<close>, or the
  function returns a token, or \<open>String.fromCodePoint\<close> throws.
\<close>

definition token_step :: "mode \<Rightarrow> jstring \<Rightarrow> lexer \<Rightarrow> step_result" where
  "token_step m line lx =
    (let pos = lx_pos lx; c = char_at line pos; result = lx_result lx;
         buffer = lx_buffer lx; classes = lx_classes lx; errs = lx_errs lx;
         gt_or_end = (c = Some (ch CHR ''>'') \<or> c = None)
     in case lx_state lx of
       Data \<Rightarrow>
        if c = Some (ch CHR ''&'')
        then (case entity_match (drop pos line) of
                Some (k, r) \<Rightarrow>
                  Next (lx\<lparr>lx_result := result @ r, lx_pos := pos + (length k - 1) + 1\<rparr>)
              | None \<Rightarrow>
                  Next (lx\<lparr>lx_buffer := [ch CHR ''&''], lx_state := Escape, lx_pos := pos + 1\<rparr>))
        else if c = Some (ch CHR ''<'') \<and> result = []
        then Next (lx\<lparr>lx_state := Tag, lx_pos := pos + 1\<rparr>)
        else if c = Some (ch CHR ''<'') \<or> c = None
        then Done (TextToken result) pos errs
        else Next (lx\<lparr>lx_result := result @ [the c], lx_pos := pos + 1\<rparr>)
     | Escape \<Rightarrow>
        if c = Some (ch CHR ''<'') \<or> c = None
        then
          (case numeric_ref buffer of
             Some ds \<Rightarrow>
               (case fromCodePoint (parseInt_digits ds) of
                  Inl e \<Rightarrow> Raise e
                | Inr s \<Rightarrow>
                    Done (TextToken (result @ s)) pos (errs @ text_err m pos ''Incorrect escape.''))
           | None \<Rightarrow>
               Done (TextToken (result @ buffer)) pos (errs @ text_err m pos ''Incorrect escape.''))
        else if c = Some (ch CHR ''&'')
        then Next (lx\<lparr>lx_errs := errs @ text_err m pos ''Incorrect escape.'',
                       lx_result := result @ buffer, lx_buffer := [ch CHR ''&''],
                       lx_pos := pos + 1\<rparr>)
        else if is_escape_char (the c)
        then Next (lx\<lparr>lx_buffer := buffer @ [the c], lx_pos := pos + 1\<rparr>)
        else if c = Some (ch CHR '';'')
        then
          (case numeric_ref_x buffer of
             Some (hex, ds) \<Rightarrow>
               (case fromCodePoint (if hex then parseInt16_digits ds else parseInt_digits ds) of
                  Inl e \<Rightarrow> Raise e
                | Inr s \<Rightarrow>
                    Next (lx\<lparr>lx_result := result @ s, lx_state := Data, lx_pos := pos + 1\<rparr>))
           | None \<Rightarrow>
               Next (lx\<lparr>lx_errs := errs @ text_err m pos ''Incorrect escape.'',
                        lx_result := result @ buffer @ [ch CHR '';''], lx_state := Data,
                        lx_pos := pos + 1\<rparr>))
        else Next (lx\<lparr>lx_errs := errs @ text_err m pos ''Incorrect escape.'',
                       lx_result := result @ buffer @ [the c], lx_state := Data,
                       lx_pos := pos + 1\<rparr>)
     | Tag \<Rightarrow>
        if c = Some 9 \<or> c = Some 10 \<or> c = Some 12 \<or> c = Some 32
        then Next (lx\<lparr>lx_state := StartTagAnnotation, lx_pos := pos + 1\<rparr>)
        else if c = Some (ch CHR ''.'')
        then Next (lx\<lparr>lx_state := StartTagClass, lx_pos := pos + 1\<rparr>)
        else if c = Some (ch CHR ''/'')
        then Next (lx\<lparr>lx_state := EndTagName, lx_pos := pos + 1\<rparr>)
        else if c \<noteq> None \<and> is_digit (the c)
        then Next (lx\<lparr>lx_result := [the c], lx_state := TimestampTagName, lx_pos := pos + 1\<rparr>)
        else if gt_or_end
        then Done (StartTag [] [] []) (after_tag c pos) errs
        else Next (lx\<lparr>lx_result := [the c], lx_state := StartTagName, lx_pos := pos + 1\<rparr>)
     | StartTagName \<Rightarrow>
        if c = Some 9 \<or> c = Some 12 \<or> c = Some 32
        then Next (lx\<lparr>lx_state := StartTagAnnotation, lx_pos := pos + 1\<rparr>)
        else if c = Some 10
        then Next (lx\<lparr>lx_buffer := [10], lx_state := StartTagAnnotation, lx_pos := pos + 1\<rparr>)
        else if c = Some (ch CHR ''.'')
        then Next (lx\<lparr>lx_state := StartTagClass, lx_pos := pos + 1\<rparr>)
        else if gt_or_end
        then Done (StartTag result [] []) (after_tag c pos) errs
        else Next (lx\<lparr>lx_result := result @ [the c], lx_pos := pos + 1\<rparr>)
     | StartTagClass \<Rightarrow>
        if c = Some 9 \<or> c = Some 12 \<or> c = Some 32
        then Next (lx\<lparr>lx_classes := push_class buffer classes, lx_buffer := [],
                       lx_state := StartTagAnnotation, lx_pos := pos + 1\<rparr>)
        else if c = Some 10
        then Next (lx\<lparr>lx_classes := push_class buffer classes, lx_buffer := [10],
                       lx_state := StartTagAnnotation, lx_pos := pos + 1\<rparr>)
        else if c = Some (ch CHR ''.'')
        then Next (lx\<lparr>lx_classes := push_class buffer classes, lx_buffer := [],
                       lx_pos := pos + 1\<rparr>)
        else if gt_or_end
        then Done (StartTag result (push_class buffer classes) []) (after_tag c pos) errs
        else Next (lx\<lparr>lx_buffer := buffer @ [the c], lx_pos := pos + 1\<rparr>)
     | StartTagAnnotation \<Rightarrow>
        if gt_or_end
        then Done (StartTag result classes (normalize_annotation buffer)) (after_tag c pos) errs
        else Next (lx\<lparr>lx_buffer := buffer @ [the c], lx_pos := pos + 1\<rparr>)
     | EndTagName \<Rightarrow>
        if gt_or_end then Done (EndTag result) (after_tag c pos) errs
        else Next (lx\<lparr>lx_result := result @ [the c], lx_pos := pos + 1\<rparr>)
     | TimestampTagName \<Rightarrow>
        if gt_or_end then Done (TimestampTag result) (after_tag c pos) errs
        else Next (lx\<lparr>lx_result := result @ [the c], lx_pos := pos + 1\<rparr>))"

text \<open>
  The loop of \<open>#nextToken\<close>, entered while \<open>line[pos - 1]\<close> exists or \<open>pos\<close> is 0.
  Leaving the loop returns \<open>undefined\<close>, on which the caller's \<open>token[0]\<close> throws a
  \<open>TypeError\<close>.
\<close>

function nextToken_loop ::
  "mode \<Rightarrow> jstring \<Rightarrow> lexer \<Rightarrow> js_error + (token \<times> nat \<times> diag list)" where
  "nextToken_loop m line lx =
    (if lx_pos lx = 0 \<or> lx_pos lx - 1 < length line
     then (case token_step m line lx of
             Next lx' \<Rightarrow> nextToken_loop m line lx'
           | Done t p ds \<Rightarrow> Inr (t, p, ds)
           | Raise e \<Rightarrow> Inl e)
     else Inl TypeError)"
  by pat_completeness auto

definition nextToken :: "mode \<Rightarrow> jstring \<Rightarrow> nat \<Rightarrow> js_error + (token \<times> nat \<times> diag list)" where
  "nextToken m line pos =
    nextToken_loop m line
      \<lparr>lx_pos = pos, lx_state = Data, lx_result = [], lx_buffer = [], lx_classes = [],
       lx_errs = []\<rparr>"


section \<open>Cue text tree builder\<close>

text \<open>
  While the tree is built every node points to its parent and \<open>current\<close> is the
  innermost open element.  Here the open elements are a stack of frames, innermost first,
  each with the children it has so far; \<open>bd_root\<close> holds the children of the result.
  A frame becomes an \<open>Object\<close> node of its parent when it is left, which puts it where
  \<open>attach\<close> had pushed it: while an element is open its parent receives no other child.
\<close>

record frame =
  fr_name :: jstring
  fr_classes :: "jstring list"
  fr_value :: "jstring option"
  fr_children :: "node list"

record builder =
  bd_pos :: nat
  bd_open :: "frame list"
  bd_root :: "node list"
  bd_timestamps :: "rat list"
  bd_errs :: "diag list"

definition frame_node :: "frame \<Rightarrow> node" where
  "frame_node f = Object (fr_name f) (fr_classes f) (fr_value f) (fr_children f)"

text \<open>\<open>current.children.push(n)\<close>.\<close>

definition push_child :: "node \<Rightarrow> builder \<Rightarrow> builder" where
  "push_child n b =
    (case bd_open b of
       [] \<Rightarrow> b\<lparr>bd_root := bd_root b @ [n]\<rparr>
     | f # fs \<Rightarrow> b\<lparr>bd_open := f\<lparr>fr_children := fr_children f @ [n]\<rparr> # fs\<rparr>)"

text \<open>\<open>attach(token)\<close>, with the \<open>value\<close> assigned right after it for \<open>v\<close> and
  \<open>lang\<close>.\<close>

definition attach :: "jstring \<Rightarrow> jstring list \<Rightarrow> jstring option \<Rightarrow> builder \<Rightarrow> builder" where
  "attach name classes val b =
    b\<lparr>bd_open := \<lparr>fr_name = name, fr_classes = classes, fr_value = val, fr_children = []\<rparr>
                  # bd_open b\<rparr>"

text \<open>\<open>current.name\<close>, undefined at the root.\<close>

definition current_name :: "builder \<Rightarrow> jstring option" where
  "current_name b = (case bd_open b of [] \<Rightarrow> None | f # fs \<Rightarrow> Some (fr_name f))"

definition inScope :: "jstring \<Rightarrow> builder \<Rightarrow> bool" where
  "inScope name b = (\<exists>f \<in> set (bd_open b). fr_name f = name)"

text \<open>\<open>current = current.parent\<close>.  At the root \<open>current\<close> would become undefined and
  the next access to it throws.\<close>

definition leave :: "builder \<Rightarrow> js_error + builder" where
  "leave b =
    (case bd_open b of
       [] \<Rightarrow> Inl TypeError
     | f # fs \<Rightarrow> Inr (push_child (frame_node f) (b\<lparr>bd_open := fs\<rparr>)))"

definition add_errs :: "diag list \<Rightarrow> builder \<Rightarrow> builder" where
  "add_errs ds b = b\<lparr>bd_errs := bd_errs b @ ds\<rparr>"

text \<open>The branch of the loop of \<open>parse\<close> for a start tag; \<open>pos\<close> is the cursor after
  the token.\<close>

definition start_tag ::
  "mode \<Rightarrow> nat \<Rightarrow> jstring \<Rightarrow> jstring list \<Rightarrow> jstring \<Rightarrow> builder \<Rightarrow> builder" where
  "start_tag m pos name classes ann b =
    (let b1 = add_errs
                ((if m = Chapters
                  then text_err m pos ''Start tags not allowed in chapter title text.'' else [])
                 @ (if name \<noteq> str ''v'' \<and> name \<noteq> str ''lang'' \<and> ann \<noteq> []
                    then text_err m pos ''Only <v> and <lang> can have an annotation.'' else []))
                b
     in
       if name = str ''c'' \<or> name = str ''i'' \<or> name = str ''b'' \<or> name = str ''u''
          \<or> name = str ''ruby''
       then attach name classes None b1
       else if name = str ''rt'' \<and> current_name b1 = Some (str ''ruby'')
       then attach name classes None b1
       else if name = str ''v''
       then
         add_errs (if ann = [] then text_err m pos ''<v> requires an annotation.'' else [])
           (attach name classes (Some ann)
             (add_errs (if inScope (str ''v'') b1
                        then text_err m pos ''<v> cannot be nested inside itself.'' else [])
                b1))
       else if name = str ''lang''
       then attach name classes (Some ann) b1
       else add_errs (text_err m pos ''Incorrect start tag.'') b1)"

definition end_tag :: "mode \<Rightarrow> nat \<Rightarrow> jstring \<Rightarrow> builder \<Rightarrow> js_error + builder" where
  "end_tag m pos name b =
    (let b1 = add_errs
                (if m = Chapters
                 then text_err m pos ''End tags not allowed in chapter title text.'' else [])
                b
     in
       if Some name = current_name b1 then leave b1
       else if name = str ''ruby'' \<and> current_name b1 = Some (str ''rt'')
       then (case leave b1 of Inl e \<Rightarrow> Inl e | Inr b2 \<Rightarrow> leave b2)
       else Inr (add_errs (text_err m pos ''Incorrect end tag.'') b1))"

text \<open>
  A timestamp tag.  The timings scanner reports through the text parser's \<open>#err\<close>,
  which keeps the message, puts its own column and stays silent in metadata mode.
\<close>

definition timestamp_tag :: "mode \<Rightarrow> nat \<Rightarrow> rat \<Rightarrow> rat \<Rightarrow> jstring \<Rightarrow> builder \<Rightarrow> builder" where
  "timestamp_tag m pos cueStart cueEnd raw b =
    (let b1 = add_errs
                (if m = Chapters
                 then text_err m pos ''Timestamp not allowed in chapter title text.'' else [])
                b
     in case parseTimestamp raw of
       (ts, ds) \<Rightarrow>
        let b2 = add_errs (concat (map (\<lambda>(msg, col). text_err m pos msg) ds)) b1
        in case ts of
          None \<Rightarrow> b2
        | Some t \<Rightarrow>
           let b3 = add_errs
                      ((if t \<le> cueStart \<or> cueEnd \<le> t
                        then text_err m pos
                               ''Timestamp must be between start timestamp and end timestamp.''
                        else [])
                       @ (if bd_timestamps b2 \<noteq> [] \<and> t \<le> last (bd_timestamps b2)
                          then text_err m pos
                                 ''Timestamp must be greater than any previous timestamp.''
                          else []))
                      b2
           in (push_child (Timestamp t) b3)\<lparr>bd_timestamps := bd_timestamps b3 @ [t]\<rparr>)"

definition apply_token ::
  "mode \<Rightarrow> nat \<Rightarrow> rat \<Rightarrow> rat \<Rightarrow> token \<Rightarrow> builder \<Rightarrow> js_error + builder" where
  "apply_token m pos cueStart cueEnd tok b =
    (case tok of
       TextToken s \<Rightarrow> Inr (push_child (Text s) b)
     | StartTag name classes ann \<Rightarrow> Inr (start_tag m pos name classes ann b)
     | EndTag name \<Rightarrow> end_tag m pos name b
     | TimestampTag raw \<Rightarrow> Inr (timestamp_tag m pos cueStart cueEnd raw b))"

text \<open>The loop \<open>while (this.#line[this.#pos] != null)\<close> of \<open>parse\<close>.\<close>

function text_loop :: "mode \<Rightarrow> jstring \<Rightarrow> rat \<Rightarrow> rat \<Rightarrow> builder \<Rightarrow> js_error + builder" where
  "text_loop m line cueStart cueEnd b =
    (if bd_pos b < length line
     then (case nextToken m line (bd_pos b) of
             Inl e \<Rightarrow> Inl e
           | Inr (tok, pos, ds) \<Rightarrow>
              (case apply_token m pos cueStart cueEnd tok (add_errs ds b) of
                 Inl e \<Rightarrow> Inl e
               | Inr b' \<Rightarrow> text_loop m line cueStart cueEnd (b'\<lparr>bd_pos := pos\<rparr>)))
     else Inr b)"
  by pat_completeness auto

text \<open>
  The end of \<open>parse\<close>: every element still open whose name is not \<open>v\<close> is reported,
  innermost first, and \<open>removeCycles\<close> returns the tree without the parent links.
\<close>

fun close_frames :: "mode \<Rightarrow> nat \<Rightarrow> frame list \<Rightarrow> node list \<Rightarrow> node list \<times> diag list" where
  "close_frames m pos [] kids = (kids, [])"
| "close_frames m pos [f] kids =
    (kids @ [frame_node f],
     if fr_name f \<noteq> str ''v'' then text_err m pos ''Required end tag missing.'' else [])"
| "close_frames m pos (f # g # fs) kids =
    (let (r, ds) = close_frames m pos (g\<lparr>fr_children := fr_children g @ [frame_node f]\<rparr> # fs) kids
     in (r, (if fr_name f \<noteq> str ''v'' then text_err m pos ''Required end tag missing.'' else [])
            @ ds))"

text \<open>\<open>parse(cueStart, cueEnd)\<close> of the cue text parser: the children of the tree and
  the diagnostics, or the exception thrown.\<close>

definition parse_text ::
  "mode \<Rightarrow> jstring \<Rightarrow> rat \<Rightarrow> rat \<Rightarrow> js_error + (node list \<times> diag list)" where
  "parse_text m line cueStart cueEnd =
    (case text_loop m line cueStart cueEnd
            \<lparr>bd_pos = 0, bd_open = [], bd_root = [], bd_timestamps = [], bd_errs = []\<rparr> of
       Inl e \<Rightarrow> Inl e
     | Inr b \<Rightarrow>
        (let (kids, ds) = close_frames m (bd_pos b) (bd_open b) (bd_root b)
         in Inr (kids, bd_errs b @ ds)))"


section \<open>Cue assembler\<close>

text \<open>An entry of the returned \<open>errors\<close> list: message, line (from 1) and column, which
  is undefined for the assembler's own diagnostics.\<close>

type_synonym error = "string \<times> nat \<times> nat option"

text \<open>What \<open>parse\<close> returns, without the field \<open>time\<close> (elapsed wall-clock time).\<close>

record result =
  cues :: "cue list"
  errors :: "error list"
  styles :: "jstring list"

text \<open>\<open>input.split(NEWLINE)\<close> with \<open>NEWLINE = /\<bslash>r\<bslash>n|\<bslash>r|\<bslash>n/\<close>.\<close>

fun split_lines :: "jstring \<Rightarrow> jstring list" where
  "split_lines [] = [[]]"
| "split_lines (c # cs) =
    (if c = 13 then (case cs of d # ds \<Rightarrow> if d = 10 then [] # split_lines ds
                                             else [] # split_lines cs
                               | [] \<Rightarrow> [] # split_lines cs)
     else if c = 10 then [] # split_lines cs
     else (case split_lines cs of [] \<Rightarrow> [[c]] | w # ws \<Rightarrow> (c # w) # ws))"

text \<open>\<open>s.indexOf(t)\<close> for a string \<open>t\<close>: the first index where \<open>t\<close> occurs,
  or \<open>-1\<close>.\<close>

fun indexOf_from :: "jstring \<Rightarrow> jstring \<Rightarrow> nat \<Rightarrow> int" where
  "indexOf_from t [] i = (if t = [] then int i else - 1)"
| "indexOf_from t (c # cs) i =
    (if take (length t) (c # cs) = t then int i else indexOf_from t cs (Suc i))"

definition indexOf :: "jstring \<Rightarrow> jstring \<Rightarrow> int" where
  "indexOf s t = indexOf_from t s 0"

definition has_arrow :: "jstring \<Rightarrow> bool" where
  "has_arrow l = (indexOf l (str ''-->'') \<noteq> - 1)"

text \<open>The tests \<open>/^NOTE($|[ \<bslash>t])/\<close> and \<open>/^STYLE($|[ \<bslash>t])/\<close>.\<close>

definition block_keyword :: "jstring \<Rightarrow> jstring \<Rightarrow> bool" where
  "block_keyword kw l =
    (take (length kw) l = kw
     \<and> (case drop (length kw) l of [] \<Rightarrow> True | c # cs \<Rightarrow> c = 32 \<or> c = 9))"

text \<open>The signature test on the first line.\<close>

definition bad_signature :: "jstring \<Rightarrow> bool" where
  "bad_signature line =
    (let bom = (if char_at line 0 = Some 65279 then 1 else 0 :: nat);
         signatureLength = 6 + bom
     in length line < signatureLength
        \<or> indexOf line (str ''WEBVTT'') \<noteq> int bom
        \<or> (length line > signatureLength
            \<and> char_at line signatureLength \<noteq> Some 32
            \<and> char_at line signatureLength \<noteq> Some 9))"

text \<open>\<open>lines[linePos]\<close> is neither the empty string nor undefined.\<close>

definition nonblank :: "jstring list \<Rightarrow> nat \<Rightarrow> bool" where
  "nonblank lines p = (p < length lines \<and> lines ! p \<noteq> [])"

text \<open>
  The inner loops.  Each is a recursion on the lines from \<open>linePos\<close> on (\<open>ls\<close> is
  \<open>drop linePos lines\<close>) and returns the new \<open>linePos\<close>.
\<close>

text \<open>Header: every line up to the first blank one is reported; a line with \<open>-->\<close>
  stops the loop and sets \<open>alreadyCollected\<close>.\<close>

fun header_loop :: "jstring list \<Rightarrow> nat \<Rightarrow> nat \<times> bool \<times> error list" where
  "header_loop [] p = (p, False, [])"
| "header_loop (l # ls) p =
    (if l = [] then (p, False, [])
     else if has_arrow l
     then (p, True, [(''No blank line after the signature.'', p + 1, None)])
     else (case header_loop ls (p + 1) of
             (q, a, es) \<Rightarrow> (q, a, (''No blank line after the signature.'', p + 1, None) # es)))"

text \<open>\<open>while (!alreadyCollected && lines[linePos] === '') linePos++\<close>.\<close>

fun skip_blank :: "jstring list \<Rightarrow> nat \<Rightarrow> nat" where
  "skip_blank [] p = p"
| "skip_blank (l # ls) p = (if l = [] then skip_blank ls (p + 1) else p)"

text \<open>The body of a NOTE block, with the message for an embedded \<open>-->\<close>.\<close>

fun note_loop :: "jstring list \<Rightarrow> nat \<Rightarrow> nat \<times> error list" where
  "note_loop [] p = (p, [])"
| "note_loop (l # ls) p =
    (if l = [] then (p, [])
     else (case note_loop ls (p + 1) of
             (q, es) \<Rightarrow>
               (q, (if has_arrow l
                    then [(''Cannot have timestamp in a comment.'', p + 1, None)] else []) @ es)))"

text \<open>The body of a STYLE block: the lines collected, whether a \<open>-->\<close> was seen.\<close>

fun style_loop :: "jstring list \<Rightarrow> nat \<Rightarrow> nat \<times> jstring list \<times> bool \<times> error list" where
  "style_loop [] p = (p, [], False, [])"
| "style_loop (l # ls) p =
    (if l = [] then (p, [], False, [])
     else (case style_loop ls (p + 1) of
             (q, st, bad, es) \<Rightarrow>
               (q, l # st, has_arrow l \<or> bad,
                (if has_arrow l
                 then [(''Cannot have timestamp in a style block.'', p + 1, None)] else [])
                @ es)))"

text \<open>After a bad timing line: up to the next blank line or the next line with
  \<open>-->\<close>, which sets \<open>alreadyCollected\<close>.\<close>

fun bad_cue_loop :: "jstring list \<Rightarrow> nat \<Rightarrow> nat \<times> bool" where
  "bad_cue_loop [] p = (p, False)"
| "bad_cue_loop (l # ls) p =
    (if l = [] then (p, False)
     else if has_arrow l then (p, True)
     else bad_cue_loop ls (p + 1))"

text \<open>The cue text: the lines up to the next blank line, joined by newlines; a line with
  \<open>-->\<close> is reported, stops the loop and sets \<open>alreadyCollected\<close>.\<close>

fun cue_text_loop ::
  "jstring list \<Rightarrow> nat \<Rightarrow> jstring \<Rightarrow> nat \<times> jstring \<times> bool \<times> error list" where
  "cue_text_loop [] p txt = (p, txt, False, [])"
| "cue_text_loop (l # ls) p txt =
    (if l = [] then (p, txt, False, [])
     else if has_arrow l
     then (p, txt, True, [(''Blank line missing before cue.'', p + 1, None)])
     else cue_text_loop ls (p + 1) ((if txt \<noteq> [] then txt @ [10] else txt) @ l))"

text \<open>The variables of \<open>parse\<close> that the cue loop changes.\<close>

record pstate =
  linePos :: nat
  alreadyCollected :: bool
  ps_styles :: "jstring list"
  ps_cues :: "cue list"
  ps_errors :: "error list"

text \<open>\<open>err\<close> with the column given: the line is \<open>linePos + 1\<close> at the time of the call.\<close>

definition at_line :: "nat \<Rightarrow> diag list \<Rightarrow> error list" where
  "at_line p ds = map (\<lambda>(msg, col). (msg, p + 1, Some col)) ds"

text \<open>
  The part of one turn of the cue loop from \<open>TIMINGS\<close> on; \<open>p\<close> is the index of the
  timing line.
\<close>

definition cue_block :: "mode \<Rightarrow> jstring list \<Rightarrow> pstate \<Rightarrow> nat \<Rightarrow> cue \<Rightarrow> js_error + pstate" where
  "cue_block m lines st p cue =
    (let previousCueStart = (if ps_cues st \<noteq> [] then startTime (last (ps_cues st)) else 0)
     in case parse_timings (lines ! p) cue previousCueStart of
       (None, ds) \<Rightarrow>
         (case bad_cue_loop (drop (p + 1) lines) (p + 1) of
            (q, a) \<Rightarrow>
              Inr (st\<lparr>linePos := q, alreadyCollected := a,
                      ps_errors := ps_errors st @ at_line p ds\<rparr>))
     | (Some cue1, ds) \<Rightarrow>
         (case cue_text_loop (drop (p + 1) lines) (p + 1) [] of
            (q, txt, a, es) \<Rightarrow>
              (case parse_text m txt (startTime cue1) (endTime cue1) of
                 Inl e \<Rightarrow> Inl e
               | Inr (kids, ts) \<Rightarrow>
                   Inr (st\<lparr>linePos := q, alreadyCollected := a,
                           ps_cues := ps_cues st @ [cue1\<lparr>cue_text := txt, tree := kids\<rparr>],
                           ps_errors := ps_errors st @ at_line p ds @ es @ at_line q ts\<rparr>))))"

text \<open>
  One turn of the cue loop, entered with \<open>lines[linePos]\<close> defined: the state for the
  next turn, and whether the loop was left by \<open>break\<close>.
\<close>

definition cue_turn :: "mode \<Rightarrow> jstring list \<Rightarrow> pstate \<Rightarrow> js_error + (pstate \<times> bool)" where
  "cue_turn m lines st =
    (let p = (if alreadyCollected st then linePos st
              else skip_blank (drop (linePos st) lines) (linePos st))
     in
       if \<not> alreadyCollected st \<and> \<not> p < length lines
       then Inr (st\<lparr>linePos := p\<rparr>, True)
       else if \<not> p < length lines then Inl TypeError
       else if \<not> has_arrow (lines ! p)
       then
         (let ident = lines ! p
          in
            if block_keyword (str ''NOTE'') ident
            then (case note_loop (drop (p + 1) lines) (p + 1) of
                    (q, es) \<Rightarrow>
                      Inr (st\<lparr>linePos := q, ps_errors := ps_errors st @ es\<rparr>, False))
            else if block_keyword (str ''STYLE'') ident
            then (case style_loop (drop (p + 1) lines) (p + 1) of
                    (q, style, invalid, es) \<Rightarrow>
                      if ps_cues st \<noteq> []
                      then Inr (st\<lparr>linePos := q,
                                   ps_errors := ps_errors st @ es
                                     @ [(''Style blocks cannot appear after the first cue.'',
                                         q + 1, None)]\<rparr>, False)
                      else if \<not> invalid
                      then Inr (st\<lparr>linePos := q,
                                   ps_styles := ps_styles st @ [join [10] style],
                                   ps_errors := ps_errors st @ es\<rparr>, False)
                      else Inr (st\<lparr>linePos := q, ps_errors := ps_errors st @ es\<rparr>, False))
            else if \<not> nonblank lines (p + 1)
            then Inr (st\<lparr>linePos := p + 1,
                         ps_errors := ps_errors st
                           @ [(''Cue identifier cannot be standalone.'', p + 2, None)]\<rparr>, False)
            else if \<not> has_arrow (lines ! (p + 1))
            then Inr (st\<lparr>linePos := p + 1,
                         ps_errors := ps_errors st
                           @ [(''Cue identifier needs to be followed by timestamp.'', p + 2,
                               None)]\<rparr>, False)
            else (case cue_block m lines st (p + 1) (new_cue\<lparr>cue_id := Some ident\<rparr>) of
                    Inl e \<Rightarrow> Inl e
                  | Inr st' \<Rightarrow> Inr (st', False)))
       else (case cue_block m lines st p new_cue of
               Inl e \<Rightarrow> Inl e
             | Inr st' \<Rightarrow> Inr (st', False)))"

text \<open>The cue loop \<open>while (lines[linePos] != null)\<close>.\<close>

function cue_loop :: "mode \<Rightarrow> jstring list \<Rightarrow> pstate \<Rightarrow> js_error + pstate" where
  "cue_loop m lines st =
    (if linePos st < length lines
     then (case cue_turn m lines st of
             Inl e \<Rightarrow> Inl e
           | Inr (st', stop) \<Rightarrow> if stop then Inr st' else cue_loop m lines st')
     else Inr st)"
  by pat_completeness auto

text \<open>The comparator of the final sort:
  \<open>a.startTime - b.startTime || a.endTime - b.endTime\<close>.\<close>

definition cue_cmp :: "cue \<Rightarrow> cue \<Rightarrow> rat" where
  "cue_cmp a b =
    (if startTime a - startTime b \<noteq> 0 then startTime a - startTime b
     else endTime a - endTime b)"

text \<open>
  The cue loop of \<open>parse\<close> from the start of the input: the state before the final
  sort, with the cues in the order they were met.
\<close>

definition parse_unsorted :: "jstring \<Rightarrow> mode \<Rightarrow> js_error + pstate" where
  \<open>parse_unsorted input m =
    (let lines = split_lines (map (\<lambda>c. if c = 0 then 65533 else c) input);
         sig = (if bad_signature (lines ! 0)
                then [(''No valid signature. (File needs to start with "WEBVTT".)'', 1, None)]
                else [])
     in case header_loop (drop 1 lines) 1 of
       (p, a, es) \<Rightarrow>
         cue_loop m lines
           \<lparr>linePos = p, alreadyCollected = a, ps_styles = [], ps_cues = [],
            ps_errors = sig @ es\<rparr>)\<close>

text \<open>\<open>parse(input, mode)\<close> of \<open>WebVttParser\<close>.\<close>

definition parse :: "jstring \<Rightarrow> mode \<Rightarrow> js_error + result" where
  "parse input m =
    (case parse_unsorted input m of
       Inl e \<Rightarrow> Inl e
     | Inr st \<Rightarrow>
         Inr \<lparr>cues = js_sort cue_cmp (ps_cues st), errors = ps_errors st,
              styles = ps_styles st\<rparr>)"


section \<open>Serializer\<close>

text \<open>\<open>s.padStart(n, '0')\<close>.\<close>

definition padStart0 :: "nat \<Rightarrow> jstring \<Rightarrow> jstring" where
  "padStart0 n s = replicate (n - length s) 48 @ s"

text \<open>An integer-valued Number as a string.\<close>

definition int_toString :: "int \<Rightarrow> jstring" where
  "int_toString i = number_toString (Fin (of_int i))"

text \<open>\<open>x % 1\<close> (the sign follows \<open>x\<close>) and \<open>Math.round\<close>.\<close>

definition rem1 :: "rat \<Rightarrow> rat" where
  "rem1 x = (if 0 \<le> x then x - of_int \<lfloor>x\<rfloor> else x - of_int \<lceil>x\<rceil>)"

definition math_round :: "rat \<Rightarrow> int" where
  "math_round x = \<lfloor>x + 1 / 2\<rfloor>"

text \<open>\<open>#serializeTimestamp(seconds)\<close>.\<close>

definition serializeTimestamp :: "rat \<Rightarrow> jstring" where
  "serializeTimestamp seconds =
    (let ms = padStart0 3 (int_toString (math_round (1000 * rem1 seconds)));
         h = (if 3600 \<le> seconds then \<lfloor>seconds / 3600\<rfloor> else 0);
         m = \<lfloor>(seconds - 3600 * of_int h) / 60\<rfloor>;
         s = \<lfloor>seconds - 3600 * of_int h - 60 * of_int m\<rfloor>
     in (if h \<noteq> 0 then int_toString h @ str '':'' else [])
        @ padStart0 2 (int_toString m) @ str '':'' @ padStart0 2 (int_toString s)
        @ str ''.'' @ ms)"

text \<open>A \<open>linePosition\<close> or \<open>textPosition\<close> appended to a string.\<close>

definition position_toString :: "auto_or_number \<Rightarrow> jstring" where
  "position_toString p = (case p of Auto \<Rightarrow> str ''auto'' | Val x \<Rightarrow> number_toString x)"

text \<open>
  \<open>#serializeCueSettings(cue)\<close>.  A key is in \<open>nonDefaultSettings\<close> when the cue's
  field differs from the field of \<open>defaultCueSettings\<close>.
\<close>

definition serializeCueSettings :: "cue \<Rightarrow> jstring" where
  "serializeCueSettings cue =
    (if direction cue \<noteq> str ''horizontal'' then str '' vertical:'' @ direction cue else [])
    @ (if alignment cue \<noteq> str ''center'' then str '' align:'' @ alignment cue else [])
    @ (if cue_size cue \<noteq> Fin 100
       then str '' size:'' @ number_toString (cue_size cue) @ str ''%'' else [])
    @ (if lineAlign cue \<noteq> str ''start'' \<or> linePosition cue \<noteq> Auto
       then str '' line:'' @ position_toString (linePosition cue)
            @ (if snapToLines cue then [] else str ''%'')
            @ (if lineAlign cue \<noteq> [] \<and> lineAlign cue \<noteq> str ''start''
               then str '','' @ lineAlign cue else [])
       else [])
    @ (if textPosition cue \<noteq> Auto \<or> positionAlign cue \<noteq> str ''auto''
       then str '' position:'' @ position_toString (textPosition cue) @ str ''%''
            @ (if positionAlign cue \<noteq> [] \<and> positionAlign cue \<noteq> str ''auto''
               then str '','' @ positionAlign cue else [])
       else [])"

text \<open>\<open>s.replaceAll(c, r)\<close> for a single character \<open>c\<close>.\<close>

definition replaceAll :: "nat \<Rightarrow> jstring \<Rightarrow> jstring \<Rightarrow> jstring" where
  "replaceAll c r s = concat (map (\<lambda>x. if x = c then r else [x]) s)"

text \<open>\<open>#serializeTree(tree)\<close>.\<close>

fun serializeTree :: "node list \<Rightarrow> jstring"
  and serializeNode :: "node \<Rightarrow> jstring" where
  "serializeTree [] = []"
| "serializeTree (n # ns) = serializeNode n @ serializeTree ns"
| "serializeNode (Text v) =
    replaceAll (ch CHR ''>'') (str ''&gt;'')
      (replaceAll (ch CHR ''<'') (str ''&lt;'')
        (replaceAll (ch CHR ''&'') (str ''&amp;'') v))"
| "serializeNode (Object name classes val children) =
    str ''<'' @ name @ concat (map (\<lambda>c. str ''.'' @ c) classes)
    @ (case val of None \<Rightarrow> [] | Some v \<Rightarrow> if v \<noteq> [] then str '' '' @ v else [])
    @ str ''>'' @ serializeTree children @ str ''</'' @ name @ str ''>''"
| "serializeNode (Timestamp t) = str ''<'' @ serializeTimestamp t @ str ''>''"

text \<open>\<open>#serializeCue(cue)\<close>.\<close>

definition serializeCue :: "cue \<Rightarrow> jstring" where
  "serializeCue cue =
    (case cue_id cue of None \<Rightarrow> [] | Some i \<Rightarrow> i @ [10])
    @ serializeTimestamp (startTime cue) @ str '' --> '' @ serializeTimestamp (endTime cue)
    @ serializeCueSettings cue
    @ [10] @ serializeTree (tree cue) @ [10, 10]"

definition serializeStyle :: "jstring \<Rightarrow> jstring" where
  "serializeStyle style = str ''STYLE'' @ [10] @ style @ [10, 10]"

text \<open>\<open>serialize(cues, styles)\<close>; \<open>styles\<close> may be left out.\<close>

definition serialize :: "cue list \<Rightarrow> jstring list option \<Rightarrow> jstring" where
  "serialize cs sts =
    str ''WEBVTT'' @ [10, 10]
    @ (case sts of None \<Rightarrow> [] | Some ss \<Rightarrow> concat (map serializeStyle ss))
    @ concat (map serializeCue cs)"


section \<open>Notions of the specification\<close>

text \<open>
  A \<open>size\<close> value fails validation, in the words of the specification: it does not
  end in \<open>%\<close>, or what precedes the \<open>%\<close> is not a number (it is empty, or
  \<open>isNaN\<close> holds of it), or the number is below 0 or above 100.
\<close>

definition size_value_fails :: "jstring \<Rightarrow> bool" where
  "size_value_fails v =
    (last_char v \<noteq> Some (ch CHR ''%'')
     \<or> (let n = slice v 0 (int (length v) - 1)
         in n = [] \<or> js_isNaN n
            \<or> num_less (js_parseFloat n) (Fin 0) \<or> num_less (Fin 100) (js_parseFloat n)))"

text \<open>The order of the specification on cues: by \<open>(startTime, endTime)\<close>,
  lexicographically.\<close>

definition cue_key_le :: "cue \<Rightarrow> cue \<Rightarrow> bool" where
  "cue_key_le a b =
    (startTime a < startTime b \<or> (startTime a = startTime b \<and> endTime a \<le> endTime b))"



text \<open>The timing line that \<open>#serializeCue\<close> writes between the identifier line and the
  cue text.\<close>

definition timing_line :: "cue \<Rightarrow> jstring" where
  "timing_line c =
    serializeTimestamp (startTime c) @ str '' --> '' @ serializeTimestamp (endTime c)
    @ serializeCueSettings c"







section \<open>Termination of the loops\<close>

text \<open>Every turn of the tokenizer loop that goes on has consumed a character.\<close>

lemma token_step_advances:
  "token_step m line lx = Next lx' \<Longrightarrow> lx_pos lx < lx_pos lx' \<and> lx_pos lx < length line"
  unfolding token_step_def Let_def
  by (cases "lx_state lx")
     (auto simp: char_at_def split: if_splits option.splits sum.splits prod.splits)

termination nextToken_loop
proof (relation "measure (\<lambda>(m, line, lx). length line + 1 - lx_pos lx)")
  show "wf (measure (\<lambda>(m, line, lx). length line + 1 - lx_pos lx))" by simp
next
  fix m :: mode and line :: jstring and lx lx' :: lexer
  assume "token_step m line lx = Next lx'"
  then have "lx_pos lx < lx_pos lx'" and "lx_pos lx < length line"
    using token_step_advances by blast+
  then show "((m, line, lx'), (m, line, lx)) \<in> measure (\<lambda>(m, line, lx). length line + 1 - lx_pos lx)"
    by simp
qed

declare nextToken_loop.simps [simp del]

lemma token_step_Done_pos:
  "token_step m line lx = Done t p ds \<Longrightarrow> lx_pos lx \<le> p"
  unfolding token_step_def Let_def
  by (cases "lx_state lx")
     (auto simp: after_tag_def split: if_splits option.splits sum.splits prod.splits)

lemma nextToken_loop_mono:
  "nextToken_loop m line lx = Inr (t, p, ds) \<Longrightarrow> lx_pos lx \<le> p"
proof (induction m line lx rule: nextToken_loop.induct)
  case (1 m line lx)
  show ?case
  proof (cases "token_step m line lx")
    case (Next lx')
    with 1 show ?thesis
      using token_step_advances[OF Next]
      by (subst (asm) (2) nextToken_loop.simps) (auto split: if_splits)
  next
    case (Done t' p' ds')
    with 1 show ?thesis
      using token_step_Done_pos[OF Done]
      by (subst (asm) (2) nextToken_loop.simps) (auto split: if_splits)
  next
    case (Raise e)
    with 1 show ?thesis
      by (subst (asm) (2) nextToken_loop.simps) (auto split: if_splits)
  qed
qed

lemma token_step_first:
  "pos < length line \<Longrightarrow>
   \<exists>lx'. token_step m line \<lparr>lx_pos = pos, lx_state = Data, lx_result = [], lx_buffer = [],
            lx_classes = [], lx_errs = []\<rparr> = Next lx'"
  unfolding token_step_def Let_def
  by (auto simp: char_at_def split: if_splits option.splits sum.splits prod.splits)

lemma nextToken_advances:
  assumes "nextToken m line pos = Inr (t, p, ds)" and "pos < length line"
  shows "pos < p"
proof -
  let ?lx = "\<lparr>lx_pos = pos, lx_state = Data, lx_result = [], lx_buffer = [],
            lx_classes = [], lx_errs = []\<rparr>"
  obtain lx' where st: "token_step m line ?lx = Next lx'"
    using token_step_first[OF assms(2)] by blast
  have "pos < lx_pos lx'" using token_step_advances[OF st] by simp
  moreover have "nextToken_loop m line lx' = Inr (t, p, ds)"
    using assms st unfolding nextToken_def
    by (subst (asm) nextToken_loop.simps) (simp split: if_splits)
  ultimately show ?thesis using nextToken_loop_mono by fastforce
qed

termination text_loop
proof (relation "measure (\<lambda>(m, line, cs, ce, b). length line - bd_pos b)")
  show "wf (measure (\<lambda>(m, line, cs, ce, b). length line - bd_pos b))" by simp
next
  fix m :: mode and line :: jstring and cueStart cueEnd :: rat and b b' :: builder
    and x :: "token \<times> nat \<times> diag list" and tok :: token and y :: "nat \<times> diag list"
    and pos :: nat and ds :: "diag list"
  assume "bd_pos b < length line" and "nextToken m line (bd_pos b) = Inr x"
    and "(tok, y) = x" and "(pos, ds) = y"
  then have "bd_pos b < pos" using nextToken_advances[of m line "bd_pos b" tok pos ds] by simp
  with \<open>bd_pos b < length line\<close>
  show "((m, line, cueStart, cueEnd, b'\<lparr>bd_pos := pos\<rparr>), (m, line, cueStart, cueEnd, b))
        \<in> measure (\<lambda>(m, line, cs, ce, b). length line - bd_pos b)"
    by simp
qed


declare text_loop.simps [simp del]

text \<open>Every inner loop of the assembler returns a line index at or after its start, and
  every turn of the cue loop that goes on has consumed a line.\<close>

lemma skip_blank_ge: "p \<le> skip_blank ls p"
  by (induction ls arbitrary: p) (auto simp: Suc_leD)

lemma note_loop_ge: "p \<le> fst (note_loop ls p)"
proof (induction ls arbitrary: p)
  case Nil then show ?case by simp
next
  case (Cons l ls)
  from Cons[of "p + 1"] show ?case by (auto split: prod.splits)
qed

lemma style_loop_ge: "p \<le> fst (style_loop ls p)"
proof (induction ls arbitrary: p)
  case Nil then show ?case by simp
next
  case (Cons l ls)
  from Cons[of "p + 1"] show ?case by (auto split: prod.splits)
qed

lemma bad_cue_loop_ge: "p \<le> fst (bad_cue_loop ls p)"
proof (induction ls arbitrary: p)
  case Nil then show ?case by simp
next
  case (Cons l ls)
  from Cons[of "p + 1"] show ?case by auto
qed

lemma cue_text_loop_ge: "p \<le> fst (cue_text_loop ls p acc)"
proof (induction ls arbitrary: p acc)
  case Nil then show ?case by simp
next
  case (Cons l ls)
  from Cons[of "p + 1"] show ?case by (auto simp: le_Suc_eq dest: Suc_leD)
qed

lemma cue_block_advances:
  "cue_block m lines st p cue = Inr st' \<Longrightarrow> p < linePos st'"
  using bad_cue_loop_ge[of "p + 1" "drop (p + 1) lines"]
        cue_text_loop_ge[of "p + 1" "drop (p + 1) lines" "[]"]
  by (auto simp: cue_block_def Let_def split: prod.splits option.splits sum.splits)

lemma cue_turn_advances:
  assumes "cue_turn m lines st = Inr (st', False)"
  shows "linePos st < linePos st'"
proof -
  define p where "p = (if alreadyCollected st then linePos st
              else skip_blank (drop (linePos st) lines) (linePos st))"
  have p: "linePos st \<le> p" using skip_blank_ge by (simp add: p_def)
  have n: "p + 1 \<le> fst (note_loop (drop (p + 1) lines) (p + 1))" by (rule note_loop_ge)
  have s: "p + 1 \<le> fst (style_loop (drop (p + 1) lines) (p + 1))" by (rule style_loop_ge)
  from assms p n s show ?thesis
    unfolding cue_turn_def Let_def p_def[symmetric]
    by (auto split: if_splits prod.splits sum.splits dest!: cue_block_advances)
qed

termination cue_loop
proof (relation "measure (\<lambda>(m, lines, st). length lines - linePos st)")
  show "wf (measure (\<lambda>(m, lines, st). length lines - linePos st))" by simp
next
  fix m :: mode and lines :: "jstring list" and st st' :: pstate
    and x :: "pstate \<times> bool" and stop :: bool
  assume "linePos st < length lines" and "cue_turn m lines st = Inr x"
    and "(st', stop) = x" and "\<not> stop"
  then have "linePos st < linePos st'" using cue_turn_advances[of m lines st st'] by simp
  with \<open>linePos st < length lines\<close>
  show "((m, lines, st'), (m, lines, st)) \<in> measure (\<lambda>(m, lines, st). length lines - linePos st)"
    by simp
qed


declare cue_loop.simps [simp del]


section \<open>Evaluation\<close>

text \<open>The defining equations, grouped for evaluating the model on concrete inputs.\<close>

lemmas string_eval = str_def ch_def char_at_def is_digit_def is_SPACE_def parseInt_digits_def
  collect_def skip_def

lemmas number_eval = mk_number_def is_js_ws_def trim_def scan_sign_def js_parseInt10_def
  scan_mantissa_def scan_exponent_def scale10_def scan_decimal_def js_parseFloat_def
  digit_value_def radix_value_def scan_nondecimal_def js_Number_def js_isNaN_def
  js_isFinite_def nat_toString_def strip_zeros_def digit_chars_def format_digits_def
  pos_toString_def number_toString_def dec_digits.simps

lemmas timing_eval = timestamp_def timestamp_tail_def NOSPACE_test_def separator_at_def
  parse_timings_def parseTimestamp_def

lemmas settings_eval = new_cue_def indexOf_char_def slice_index_def slice_def slice_from_def
  last_char_def opt_percent_end_def line_value_regex_def setting_vertical_def
  setting_line_def setting_position_def setting_size_def setting_align_def apply_setting_def
  setting_key_def setting_value_def parseSettings_def

lemmas text_eval = js_sort_def entities_def makeEntityRegex_def entity_match_def
  fromCodePoint_def numeric_ref_def numeric_ref_x_def parseInt16_digits_def
  is_escape_char_def is_annotation_space_def normalize_annotation_def text_err_def
  after_tag_def push_class_def token_step_def nextToken_loop.simps nextToken_def
  frame_node_def push_child_def attach_def current_name_def inScope_def leave_def
  add_errs_def start_tag_def end_tag_def timestamp_tag_def apply_token_def text_loop.simps
  parse_text_def

lemmas parse_eval = indexOf_def has_arrow_def block_keyword_def bad_signature_def
  nonblank_def at_line_def cue_block_def cue_turn_def cue_loop.simps cue_cmp_def
  parse_unsorted_def parse_def

lemmas serialize_eval = padStart0_def int_toString_def rem1_def math_round_def
  serializeTimestamp_def position_toString_def serializeCueSettings_def replaceAll_def
  serializeCue_def serializeStyle_def serialize_def

lemmas all_eval = string_eval number_eval timing_eval settings_eval text_eval parse_eval Let_def


section \<open>Properties of the stable sort\<close>

lemma cue_cmp_le: "cue_cmp a b \<le> 0 \<longleftrightarrow> cue_key_le a b"
  by (auto simp: cue_cmp_def cue_key_le_def)

lemma cue_key_le_trans: "cue_key_le a b \<Longrightarrow> cue_key_le b c \<Longrightarrow> cue_key_le a c"
  by (auto simp: cue_key_le_def)

lemma cue_key_le_total: "\<not> cue_key_le a b \<Longrightarrow> cue_key_le b a"
  by (auto simp: cue_key_le_def)

lemma set_insort_cmp: "set (insort_cmp cmp x ys) = insert x (set ys)"
  by (induction ys) auto

lemma length_insort_cmp: "length (insort_cmp cmp x ys) = Suc (length ys)"
  by (induction ys) auto

lemma sorted_insort_cmp:
  "sorted_wrt cue_key_le ys \<Longrightarrow> sorted_wrt cue_key_le (insort_cmp cue_cmp x ys)"
proof (induction ys)
  case Nil
  then show ?case by simp
next
  case (Cons y ys)
  show ?case
  proof (cases "cue_cmp x y \<le> 0")
    case True
    then have "cue_key_le x y" by (simp add: cue_cmp_le)
    with Cons.prems show ?thesis
      using True by (auto intro: cue_key_le_trans)
  next
    case False
    then have "cue_key_le y x" by (simp add: cue_cmp_le cue_key_le_total)
    with Cons False show ?thesis
      by (auto simp: set_insort_cmp)
  qed
qed

lemma filter_insort_cmp:
  "filter (\<lambda>c. startTime c = s \<and> endTime c = e) (insort_cmp cue_cmp x ys)
   = (if startTime x = s \<and> endTime x = e
      then x # filter (\<lambda>c. startTime c = s \<and> endTime c = e) ys
      else filter (\<lambda>c. startTime c = s \<and> endTime c = e) ys)"
  by (induction ys) (auto simp: cue_cmp_def)

lemma js_sort_Cons: "js_sort cmp (x # xs) = insort_cmp cmp x (js_sort cmp xs)"
  by (simp add: js_sort_def)

lemma js_sort_Nil: "js_sort cmp [] = []"
  by (simp add: js_sort_def)

lemma sorted_js_sort: "sorted_wrt cue_key_le (js_sort cue_cmp xs)"
  by (induction xs) (auto simp: js_sort_Cons js_sort_Nil sorted_insort_cmp)

lemma filter_js_sort:
  "filter (\<lambda>c. startTime c = s \<and> endTime c = e) (js_sort cue_cmp xs)
   = filter (\<lambda>c. startTime c = s \<and> endTime c = e) xs"
  by (induction xs) (auto simp: js_sort_Cons js_sort_Nil filter_insort_cmp)

lemma set_js_sort: "set (js_sort cmp xs) = set xs"
  by (induction xs) (auto simp: js_sort_Cons js_sort_Nil set_insort_cmp)

lemma length_js_sort: "length (js_sort cmp xs) = length xs"
  by (induction xs) (auto simp: js_sort_Cons js_sort_Nil length_insort_cmp)


section \<open>Where the cues of the result come from\<close>

text \<open>Settings change neither the identifier nor the times of a cue.\<close>

lemma apply_setting_frame:
  "apply_setting col s v pa cue = ((c', pa'), ds) \<Longrightarrow>
   cue_id c' = cue_id cue \<and> startTime c' = startTime cue \<and> endTime c' = endTime cue"
  unfolding apply_setting_def setting_vertical_def setting_line_def setting_position_def
    setting_size_def setting_align_def Let_def
  by (auto split: if_splits option.splits prod.splits)

lemma parseSettings_loop_frame:
  "parseSettings_loop col toks seen pa cue = (c', ds) \<Longrightarrow>
   cue_id c' = cue_id cue \<and> startTime c' = startTime cue \<and> endTime c' = endTime cue"
proof (induction toks arbitrary: seen pa cue c' ds)
  case Nil
  then show ?case by simp
next
  case (Cons tok toks)
  show ?case
  proof (cases "tok = []")
    case True
    with Cons show ?thesis by simp
  next
    case False
    show ?thesis
    proof (cases "setting_value tok = []")
      case True
      with False Cons.prems show ?thesis by (simp add: Let_def)
    next
      case v: False
      obtain c1 pa1 d1 where a: "apply_setting col (setting_key tok) (setting_value tok) pa cue
          = ((c1, pa1), d1)"
        by (metis prod.exhaust)
      obtain c2 d2 where l: "parseSettings_loop col toks (seen @ [setting_key tok]) pa1 c1 = (c2, d2)"
        by (metis prod.exhaust)
      from Cons.prems False v a l have "c' = c2" by (simp add: Let_def)
      with Cons.IH[OF l] apply_setting_frame[OF a] show ?thesis by simp
    qed
  qed
qed

lemma parse_timings_frame:
  assumes "parse_timings line cue prev = (Some c1, ds)"
  shows "cue_id c1 = cue_id cue"
  using assms
  unfolding parse_timings_def parseSettings_def Let_def
  by (auto split: prod.splits option.splits if_splits dest!: parseSettings_loop_frame)

text \<open>A property of cues that every successful timing line establishes holds of all
  cues of the result.\<close>

lemma cue_block_cues:
  assumes "cue_block m lines st p cue0 = Inr st'"
  shows "ps_cues st' = ps_cues st
         \<or> (\<exists>c1 ds prev t k. parse_timings (lines ! p) cue0 prev = (Some c1, ds)
               \<and> ps_cues st' = ps_cues st @ [c1\<lparr>cue_text := t, tree := k\<rparr>])"
proof -
  let ?prev = "if ps_cues st \<noteq> [] then startTime (last (ps_cues st)) else 0"
  obtain r ds where pt: "parse_timings (lines ! p) cue0 ?prev = (r, ds)"
    by (metis prod.exhaust)
  show ?thesis
  proof (cases r)
    case None
    with assms pt have "ps_cues st' = ps_cues st"
      unfolding cue_block_def Let_def by (auto split: prod.splits)
    then show ?thesis by simp
  next
    case (Some c1)
    with assms pt obtain t k where "ps_cues st' = ps_cues st @ [c1\<lparr>cue_text := t, tree := k\<rparr>]"
      unfolding cue_block_def Let_def by (auto split: prod.splits sum.splits)
    with pt Some show ?thesis by blast
  qed
qed

lemma cue_turn_cues:
  assumes "cue_turn m lines st = Inr (st', stop)"
  shows "ps_cues st' = ps_cues st
         \<or> (\<exists>l i c1 ds prev t k. parse_timings l (new_cue\<lparr>cue_id := Some i\<rparr>) prev = (Some c1, ds)
               \<and> ps_cues st' = ps_cues st @ [c1\<lparr>cue_text := t, tree := k\<rparr>])"
proof -
  have n: "new_cue = new_cue\<lparr>cue_id := Some []\<rparr>" by (simp add: new_cue_def)
  from assms show ?thesis
    unfolding cue_turn_def Let_def
    apply (auto split: if_splits prod.splits sum.splits dest!: cue_block_cues)
    apply (metis n)+
    done
qed

lemma cue_loop_cues:
  assumes "cue_loop m lines st = Inr st'"
    and "\<forall>c \<in> set (ps_cues st). Q c"
    and step: "\<And>l i prev c1 ds t k.
      parse_timings l (new_cue\<lparr>cue_id := Some i\<rparr>) prev = (Some c1, ds) \<Longrightarrow>
      Q (c1\<lparr>cue_text := t, tree := k\<rparr>)"
  shows "\<forall>c \<in> set (ps_cues st'). Q c"
  using assms(1,2)
proof (induction m lines st rule: cue_loop.induct)
  case (1 m lines st)
  show ?case
  proof (cases "linePos st < length lines")
    case False
    with 1 show ?thesis by (simp add: cue_loop.simps[of m lines st])
  next
    case True
    then obtain st1 stop where t: "cue_turn m lines st = Inr (st1, stop)"
      using "1.prems"(1)
      by (auto simp: cue_loop.simps[of m lines st] split: sum.splits)
    have q1: "\<forall>c \<in> set (ps_cues st1). Q c"
      using cue_turn_cues[OF t] "1.prems"(2) step by auto
    show ?thesis
    proof (cases stop)
      case True
      with t \<open>linePos st < length lines\<close> "1.prems"(1) have "st' = st1"
        by (simp add: cue_loop.simps[of m lines st])
      with q1 show ?thesis by simp
    next
      case False
      with t \<open>linePos st < length lines\<close> "1.prems"(1) have "cue_loop m lines st1 = Inr st'"
        by (simp add: cue_loop.simps[of m lines st])
      with "1.IH"[OF \<open>linePos st < length lines\<close> t refl False] q1 show ?thesis by blast
    qed
  qed
qed

lemma parse_cues:
  assumes "parse input m = Inr r"
    and step: "\<And>l i prev c1 ds t k.
      parse_timings l (new_cue\<lparr>cue_id := Some i\<rparr>) prev = (Some c1, ds) \<Longrightarrow>
      Q (c1\<lparr>cue_text := t, tree := k\<rparr>)"
  shows "\<forall>c \<in> set (cues r). Q c"
proof -
  from assms(1) obtain st where u: "parse_unsorted input m = Inr st"
    and c: "cues r = js_sort cue_cmp (ps_cues st)"
    by (auto simp: parse_def split: sum.splits)
  from u have "\<forall>c \<in> set (ps_cues st). Q c"
    unfolding parse_unsorted_def Let_def
    by (auto split: prod.splits dest!: cue_loop_cues[where Q = Q] intro: step)
  with c show ?thesis by (simp add: set_js_sort)
qed


section \<open>Timestamps written and read back\<close>

subsection \<open>Decimal digits\<close>





lemma dec_digits_small: "n < 10 \<Longrightarrow> dec_digits n = [n]"
  by (simp add: dec_digits.simps)

lemma dec_digits_big: "\<not> n < 10 \<Longrightarrow> dec_digits n = dec_digits (n div 10) @ [n mod 10]"
  by (subst dec_digits.simps) simp






lemma length_dec_digits: "0 < k \<Longrightarrow> n < 10 ^ k \<Longrightarrow> length (dec_digits n) \<le> k"
proof (induction k arbitrary: n)
  case 0
  then show ?case by simp
next
  case (Suc k)
  show ?case
  proof (cases "n < 10")
    case True
    then show ?thesis by (simp add: dec_digits_small)
  next
    case False
    with Suc.prems have k: "0 < k" by (cases k) auto
    from Suc.prems have "n div 10 < 10 ^ k" by (simp add: less_mult_imp_div_less mult.commute)
    with Suc.IH[OF k] have "length (dec_digits (n div 10)) \<le> k" by simp
    with False show ?thesis by (simp add: dec_digits_big)
  qed
qed





subsection \<open>Integers as strings\<close>

lemma frac_digits_zero: "frac_digits n 0 = []"
  by (cases n) simp_all

lemma takeWhile_zeros: "takeWhile (\<lambda>d. d = (0::nat)) xs = replicate (length (takeWhile (\<lambda>d. d = 0) xs)) 0"
  by (induction xs) auto

lemma strip_zeros_decomp:
  "ds = strip_zeros ds @ replicate (length ds - length (strip_zeros ds)) 0"
proof -
  let ?P = "\<lambda>d. d = (0::nat)"
  have "rev ds = takeWhile ?P (rev ds) @ dropWhile ?P (rev ds)" by simp
  then have "ds = rev (dropWhile ?P (rev ds)) @ rev (takeWhile ?P (rev ds))"
    by (metis rev_append rev_rev_ident)
  moreover have "rev (takeWhile ?P (rev ds)) = replicate (length (takeWhile ?P (rev ds))) 0"
    by (subst takeWhile_zeros) simp
  moreover have "length (takeWhile ?P (rev ds)) = length ds - length (strip_zeros ds)"
  proof -
    have "length (takeWhile ?P (rev ds)) + length (dropWhile ?P (rev ds)) = length ds"
      by (metis length_append length_rev takeWhile_dropWhile_id)
    then show ?thesis by (simp add: strip_zeros_def)
  qed
  ultimately show ?thesis by (simp add: strip_zeros_def)
qed

lemma digit_chars_append: "digit_chars (xs @ ys) = digit_chars xs @ digit_chars ys"
  by (simp add: digit_chars_def)

lemma digit_chars_zeros: "digit_chars (replicate k 0) = replicate k 48"
  by (simp add: digit_chars_def)

lemma length_strip_zeros: "length (strip_zeros ds) \<le> length ds"
  by (simp add: strip_zeros_def) (metis length_dropWhile_le length_rev)

lemma pos_toString_nat:
  assumes "0 < n" and "n < 10 ^ 21"
  shows "pos_toString (of_nat n) = nat_toString n"
proof -
  let ?D = "dec_digits n"
  have len: "length ?D \<le> 21" using length_dec_digits[of 21 n] assms by simp
  have k: "length (strip_zeros ?D) \<le> length ?D" by (rule length_strip_zeros)
  have "pos_toString (of_nat n) = format_digits (strip_zeros ?D) (int (length ?D))"
    using assms(1) by (simp add: pos_toString_def Let_def frac_digits_zero)
  also have "\<dots> = digit_chars (strip_zeros ?D)
                    @ replicate (length ?D - length (strip_zeros ?D)) 48"
    using len k by (simp add: format_digits_def Let_def nat_diff_distrib')
  also have "\<dots> = digit_chars (strip_zeros ?D @ replicate (length ?D - length (strip_zeros ?D)) 0)"
    by (simp add: digit_chars_append digit_chars_zeros)
  also have "\<dots> = digit_chars ?D" using strip_zeros_decomp[of ?D] by simp
  finally show ?thesis by (simp add: nat_toString_def digit_chars_def)
qed

lemma int_toString_nat: "n < 10 ^ 21 \<Longrightarrow> int_toString (int n) = nat_toString n"
proof (cases "n = 0")
  case True
  then show ?thesis
    by (simp add: int_toString_def number_toString_def nat_toString_def dec_digits_small str_def)
next
  case False
  assume "n < 10 ^ 21"
  with False show ?thesis
    using pos_toString_nat[of n] by (simp add: int_toString_def number_toString_def)
qed

subsection \<open>The fields of a time\<close>

lemma floor_add_fraction:
  fixes f :: rat
  assumes "0 \<le> f" and "f < 1"
  shows "\<lfloor>of_nat n + f\<rfloor> = int n"
  using assms by (intro floor_unique) simp_all

lemma time_fields:
  fixes h m s ms :: nat
  assumes "m \<le> 59" and "s \<le> 59" and "ms \<le> 999"
  defines "t \<equiv> (of_nat h * 3600 + of_nat m * 60 + of_nat s + of_nat ms / 1000 :: rat)"
  shows "math_round (1000 * rem1 t) = int ms"
    and "(if 3600 \<le> t then \<lfloor>t / 3600\<rfloor> else 0) = int h"
    and "\<lfloor>(t - 3600 * of_int (int h)) / 60\<rfloor> = int m"
    and "\<lfloor>t - 3600 * of_int (int h) - 60 * of_int (int m)\<rfloor> = int s"
proof -
  define f :: rat where "f = of_nat ms / 1000"
  have f: "0 \<le> f" "f < 1" using assms(3) by (simp_all add: f_def)
  have t: "t = of_nat (h * 3600 + m * 60 + s) + f" by (simp add: t_def f_def)
  have fl: "\<lfloor>t\<rfloor> = int (h * 3600 + m * 60 + s)"
    unfolding t by (rule floor_add_fraction[OF f])
  have t0: "0 \<le> t" unfolding t using f by simp
  have "rem1 t = t - of_int \<lfloor>t\<rfloor>" using t0 by (simp add: rem1_def)
  also have "\<dots> = t - of_nat (h * 3600 + m * 60 + s)" by (simp only: fl of_int_of_nat_eq)
  also have "\<dots> = f" by (simp only: t add_diff_cancel_left')
  finally have "rem1 t = f" .
  then have "1000 * rem1 t = of_nat ms" by (simp add: f_def)
  then show "math_round (1000 * rem1 t) = int ms"
    by (simp add: math_round_def) (intro floor_unique; simp)
  have low: "of_nat m * 60 + of_nat s + f < (3600 :: rat)"
  proof -
    have "(of_nat m :: rat) \<le> 59" "(of_nat s :: rat) \<le> 59"
      using assms(1,2) of_nat_mono[of m 59, where 'a = rat] of_nat_mono[of s 59, where 'a = rat]
      by simp_all
    with f show ?thesis by simp
  qed
  have nn: "0 \<le> of_nat m * 60 + of_nat s + f" using f by simp
  show "(if 3600 \<le> t then \<lfloor>t / 3600\<rfloor> else 0) = int h"
  proof (cases "h = 0")
    case True
    with low show ?thesis by (simp add: t_def f_def)
  next
    case False
    then have "(1::rat) \<le> of_nat h" by simp
    then have ge: "3600 \<le> t" using nn unfolding t_def f_def by simp
    have eq: "t / 3600 = of_nat h + (of_nat m * 60 + of_nat s + f) / 3600"
      by (simp add: t_def f_def field_simps)
    have "\<lfloor>of_nat h + (of_nat m * 60 + of_nat s + f) / 3600\<rfloor> = int h"
      using low nn by (intro floor_add_fraction) simp_all
    then have "\<lfloor>t / 3600\<rfloor> = int h" by (simp only: eq)
    with ge show ?thesis by (simp only: if_True)
  qed
  have eq2: "(t - 3600 * of_int (int h)) / 60 = of_nat m + (of_nat s + f) / 60"
    by (simp add: t_def f_def field_simps)
  have "\<lfloor>of_nat m + (of_nat s + f) / 60\<rfloor> = int m"
  proof -
    have "(of_nat s :: rat) \<le> 59"
      using assms(2) of_nat_mono[of s 59, where 'a = rat] by simp
    with f show ?thesis by (intro floor_add_fraction) simp_all
  qed
  then show "\<lfloor>(t - 3600 * of_int (int h)) / 60\<rfloor> = int m" by (simp only: eq2)
  have eq3: "t - 3600 * of_int (int h) - 60 * of_int (int m) = of_nat s + f"
    by (simp add: t_def f_def)
  show "\<lfloor>t - 3600 * of_int (int h) - 60 * of_int (int m)\<rfloor> = int s"
    using floor_add_fraction[OF f, of s] by (simp only: eq3)
qed

lemma serializeTimestamp_fields:
  fixes h m s ms :: nat
  assumes "m \<le> 59" and "s \<le> 59" and "ms \<le> 999"
  shows "serializeTimestamp (of_nat h * 3600 + of_nat m * 60 + of_nat s + of_nat ms / 1000)
         = (if h \<noteq> 0 then int_toString (int h) @ str '':'' else [])
           @ padStart0 2 (nat_toString m) @ str '':'' @ padStart0 2 (nat_toString s)
           @ str ''.'' @ padStart0 3 (nat_toString ms)"
proof -
  have "m < 10 ^ 21" "s < 10 ^ 21" "ms < 10 ^ 21" using assms by simp_all
  then show ?thesis
    unfolding serializeTimestamp_def Let_def
    by (simp only: time_fields[OF assms] int_toString_nat of_nat_eq_0_iff int_eq_iff_numeral
          of_nat_0 of_nat_eq_iff[of h 0, simplified])
qed

subsection \<open>Reading a written timestamp\<close>


lemma char_at_end: "n = length a \<Longrightarrow> char_at a n = None"
  by (simp add: char_at_def)





subsection \<open>Times of the parser\<close>






subsection \<open>A written timestamp reads back\<close>




subsection \<open>A written timing line reads back\<close>







subsection \<open>Particular timestamps\<close>


lemma serializeTimestamp_zero: "serializeTimestamp 0 = str ''00:00.000''"
  using serializeTimestamp_fields[of 0 0 0 0]
  by (simp add: padStart0_def nat_toString_def dec_digits_small str_def numeral_2_eq_2)


section \<open>Evaluating the string form of a number\<close>






section \<open>The line setting\<close>





section \<open>Properties of the timestamp scanner\<close>

lemma parseInt_digits_zero: "parseInt_digits (str ''0'') = 0"
  by (simp add: parseInt_digits_def str_def)

text \<open>
  C2 (as amended).  When the leading digit run has at most two digits and value at most 59,
  and is followed by \<open>:\<close> and exactly two digits, the scanner looks at the next
  character.  Only when that is not a second \<open>:\<close> does it take the minutes branch:
  the leading run must then have exactly two digits (otherwise the diagnostic
  "Must be exactly two digits." and no value), and the value is
  \<open>mm * 60 + ss + ms / 1000\<close>, hours forced to 0.  When a second \<open>:\<close>
  follows, the three-field form \<open>hh:mm:ss.mmm\<close> is parsed whatever the length of
  the leading run.
\<close>

theorem timestamp_leading_run_branches:
  assumes "char_at line pos = Some c" and "is_digit c"
    and "val1 = collect is_digit line pos"
    and "length val1 \<le> 2" and "parseInt_digits val1 \<le> 59"
    and "pos1 = pos + length val1"
    and "char_at line pos1 = Some (ch CHR '':'')"
    and "val2 = collect is_digit line (pos1 + 1)"
    and "length val2 = 2"
    and "pos3 = pos1 + 1 + length val2"
  shows "(if char_at line pos3 = Some (ch CHR '':'')
          then timestamp line pos =
                (let val3 = collect is_digit line (pos3 + 1);
                     pos5 = pos3 + 1 + length val3
                 in if length val3 \<noteq> 2
                    then (None, pos5, [(''Must be exactly two digits.'', pos5 + 1)])
                    else timestamp_tail line pos5 val1 val2 val3)
          else if length val1 \<noteq> 2
          then timestamp line pos = (None, pos3, [(''Must be exactly two digits.'', pos3 + 1)])
          else timestamp line pos = timestamp_tail line pos3 (str ''0'') val1 val2
             \<and> (\<forall>t. fst (timestamp line pos) = Some t \<longrightarrow>
                   (\<exists>val4. t = of_nat (parseInt_digits val1) * 60
                                + of_nat (parseInt_digits val2)
                                + of_nat (parseInt_digits val4) / 1000)))"
  using assms
  by (auto simp add: timestamp_def timestamp_tail_def Let_def parseInt_digits_zero split: if_splits)

lemmas eval_defs = str_def ch_def char_at_def collect_def is_digit_def parseInt_digits_def

theorem timestamp_leading_run_branches_witness:
  "timestamp (str ''1:00.000'') 0 = (None, 4, [(''Must be exactly two digits.'', 5)])"
proof -
  have 1: "char_at (str ''1:00.000'') 0 = Some (ch CHR ''1'')" by (simp add: eval_defs)
  have 2: "is_digit (ch CHR ''1'')" by (simp add: eval_defs)
  have 3: "str ''1'' = collect is_digit (str ''1:00.000'') 0" by (simp add: eval_defs)
  have 4: "length (str ''1'') \<le> 2" by (simp add: eval_defs)
  have 5: "parseInt_digits (str ''1'') \<le> 59" by (simp add: eval_defs)
  have 6: "(1::nat) = 0 + length (str ''1'')" by (simp add: eval_defs)
  have 7: "char_at (str ''1:00.000'') 1 = Some (ch CHR '':'')" by (simp add: eval_defs)
  have 8: "str ''00'' = collect is_digit (str ''1:00.000'') (1 + 1)" by (simp add: eval_defs)
  have 9: "length (str ''00'') = 2" by (simp add: eval_defs)
  have 10: "(4::nat) = 1 + 1 + length (str ''00'')" by (simp add: eval_defs)
  have 11: "char_at (str ''1:00.000'') 4 \<noteq> Some (ch CHR '':'')" by (simp add: eval_defs)
  have 12: "length (str ''1'') \<noteq> 2" by (simp add: eval_defs)
  from timestamp_leading_run_branches [OF 1 2 3 4 5 6 7 8 9 10] 11 12
  show ?thesis by simp
qed

text \<open>
  C2 as stated fails: \<open>1:00:00.000\<close> has a one-digit leading run of value 1, and
  is parsed in the three-field form to 3600 seconds without any diagnostic.
\<close>

theorem timestamp_one_digit_hours_counterexample:
  "length (collect is_digit (str ''1:00:00.000'') 0) \<le> 2
   \<and> parseInt_digits (collect is_digit (str ''1:00:00.000'') 0) \<le> 59
   \<and> timestamp (str ''1:00:00.000'') 0 = (Some 3600, 11, [])"
  by (simp add: timestamp_def timestamp_tail_def str_def ch_def char_at_def collect_def
       is_digit_def parseInt_digits_def)


section \<open>Exceptions and numeric character references\<close>

text \<open>
  C1.  The claim is that no input makes an exception escape \<open>parse\<close>.  On the code a
  numeric character reference beyond \<open>0x10FFFF\<close> in a cue text makes
  \<open>String.fromCodePoint\<close> throw a \<open>RangeError\<close>, which nothing catches: \<open>parse\<close>
  returns no result for this four-line input, in either mode.
\<close>

theorem parse_throws_RangeError:
  "parse (str ''WEBVTT'' @ [10, 10] @ str ''00:00.000 --> 00:01.000'' @ [10] @ str ''&#1114112;'')
     Metadata = Inl RangeError
   \<and> parse (str ''WEBVTT'' @ [10, 10] @ str ''00:00.000 --> 00:01.000'' @ [10] @ str ''&#1114112;'')
     Chapters = Inl RangeError"
  by (simp add: all_eval)

text \<open>
  C6.  The claim is that every reference \<open>&#DDD;\<close> and \<open>&#xHH;\<close> is decoded without
  a diagnostic.  On the code the hexadecimal form is recognised only when its digits
  are decimal digits: \<open>&#xff;\<close> is reported as an incorrect escape and stays in the text
  literally (silently so in metadata mode), while \<open>&#x41;\<close> and \<open>&#65;\<close> both give
  \<open>A\<close>; and a decimal reference beyond \<open>0x10FFFF\<close> throws.
\<close>

theorem hex_reference_not_decoded:
  "parse_text Chapters (str ''&#xff;'') 0 1
     = Inr ([Text (str ''&#xff;'')], [(''Incorrect escape.'', 6)])
   \<and> parse_text Metadata (str ''&#xff;'') 0 1 = Inr ([Text (str ''&#xff;'')], [])
   \<and> parse_text Chapters (str ''&#x41;&#65;'') 0 1 = Inr ([Text (str ''AA'')], [])
   \<and> parse_text Chapters (str ''&#1114112;'') 0 1 = Inl RangeError"
  by (simp add: all_eval)

section \<open>The range of a percentage line position\<close>

text \<open>
  C3.  The claim is that a percentage \<open>linePosition\<close> lies in \<open>[0, 100]\<close>.  On the
  code the upper bound is tested on \<open>parseInt(value, 10)\<close>, which drops the fraction:
  \<open>line:100.5%\<close> is accepted without a diagnostic and the cue is returned with
  \<open>snapToLines = false\<close> and \<open>linePosition = 100.5\<close>.
\<close>

theorem line_percentage_above_100:
  "(case parse (str ''WEBVTT'' @ [10, 10] @ str ''00:00.000 --> 00:01.000 line:100.5%'' @ [10]
                @ str ''text'') Metadata of
      Inl e \<Rightarrow> False
    | Inr r \<Rightarrow> map (\<lambda>c. (snapToLines c, linePosition c)) (cues r) = [(False, Val (Fin (201 / 2)))]
              \<and> errors r = [])"
  by (simp add: all_eval)


section \<open>A cue that ends before it starts\<close>

lemma timestamp_tail_messages:
  "timestamp_tail line pos v1 v2 v3 = (r, p, d) \<Longrightarrow> (msg, c) \<in> set d \<Longrightarrow>
   msg \<noteq> ''End timestamp is not greater than start timestamp.''"
  by (auto simp: timestamp_tail_def Let_def split: if_splits)

lemma timestamp_messages:
  "timestamp line pos = (r, p, d) \<Longrightarrow> (msg, c) \<in> set d \<Longrightarrow>
   msg \<noteq> ''End timestamp is not greater than start timestamp.''"
  unfolding timestamp_def Let_def
  by (auto split: option.splits if_splits dest: timestamp_tail_messages)

lemma end_before_start_keeps_cue:
  assumes "(''End timestamp is not greater than start timestamp.'', col)
            \<in> set (snd (parse_timings line cue prev))"
  shows "fst (parse_timings line cue prev) \<noteq> None"
proof
  assume none: "fst (parse_timings line cue prev) = None"
  from assms none show False
    unfolding parse_timings_def Let_def
    by (auto split: prod.splits option.splits if_splits dest: timestamp_messages)
qed

lemma parseSettings_frame:
  "parseSettings col input cue = (c', ds) \<Longrightarrow>
   startTime c' = startTime cue \<and> endTime c' = endTime cue"
  unfolding parseSettings_def by (auto dest: parseSettings_loop_frame)

lemma parse_timings_both_read:
  assumes s: "timestamp line (skip is_SPACE line 0) = (Some start, pos1, d1)"
    and sep: "separator_at line (skip is_SPACE line pos1) = None"
    and e: "timestamp line (skip is_SPACE line (skip is_SPACE line pos1 + 3)) = (Some end, pos5, d5)"
  shows "\<exists>c ds. parse_timings line cue prev = (Some c, ds)
           \<and> startTime c = start \<and> endTime c = end
           \<and> (end \<le> start \<longrightarrow>
                (''End timestamp is not greater than start timestamp.'', pos5 + 1) \<in> set ds)"
proof -
  obtain c' d7 where ps: "parseSettings (skip is_SPACE line pos5 + 1)
        (drop (skip is_SPACE line pos5) line) (cue\<lparr>startTime := start, endTime := end\<rparr>) = (c', d7)"
    by (metis prod.exhaust)
  from parseSettings_frame[OF ps] have t: "startTime c' = start" "endTime c' = end" by simp_all
  show ?thesis
    using ps t unfolding parse_timings_def Let_def
    by (simp add: s sep e)
qed

lemma cue_block_keeps:
  assumes "parse_timings (lines ! p) cue
             (if ps_cues st \<noteq> [] then startTime (last (ps_cues st)) else 0) = (Some c1, ds)"
    and "cue_block m lines st p cue = Inr st'"
  shows "\<exists>t k. ps_cues st' = ps_cues st @ [c1\<lparr>cue_text := t, tree := k\<rparr>]"
  using assms unfolding cue_block_def Let_def
  by (auto split: prod.splits sum.splits) blast


lemma cue_turn_keeps:
  assumes "cue_turn m lines st = Inr (st', stop)"
  shows "\<exists>more. ps_cues st' = ps_cues st @ more"
  using cue_turn_cues[OF assms] by auto

lemma cue_loop_keeps:
  assumes "cue_loop m lines st = Inr st'"
  shows "\<exists>more. ps_cues st' = ps_cues st @ more"
  using assms
proof (induction m lines st rule: cue_loop.induct)
  case (1 m lines st)
  show ?case
  proof (cases "linePos st < length lines")
    case False
    with 1 show ?thesis by (simp add: cue_loop.simps[of m lines st])
  next
    case True
    then obtain st1 stop where t: "cue_turn m lines st = Inr (st1, stop)"
      using "1.prems"(1)
      by (auto simp: cue_loop.simps[of m lines st] split: sum.splits)
    from cue_turn_keeps[OF t] obtain m1 where m1: "ps_cues st1 = ps_cues st @ m1" by blast
    show ?thesis
    proof (cases stop)
      case True
      with t \<open>linePos st < length lines\<close> "1.prems"(1) have "st' = st1"
        by (simp add: cue_loop.simps[of m lines st])
      with m1 show ?thesis by simp
    next
      case False
      with t \<open>linePos st < length lines\<close> "1.prems"(1) have "cue_loop m lines st1 = Inr st'"
        by (simp add: cue_loop.simps[of m lines st])
      with "1.IH"[OF \<open>linePos st < length lines\<close> t refl False] m1 show ?thesis by auto
    qed
  qed
qed

text \<open>
  C5.  The timing line \<open>00:00:01.000 --> 00:00:00.000\<close> parses successfully: after a
  cue that does not start later than 1 (or as the first cue) its only diagnostic is
  "End timestamp is not greater than start timestamp." and the cue comes back with start
  time 1 and end time 0.  In general, on every timing line on which both timestamps
  and the separator are read, an end time that is not greater than the start time raises
  that diagnostic and the scanner still reports success, with the cue carrying both times;
  the diagnostic is raised on no path that discards the cue.  A cue whose timing line was
  read successfully is appended to the cues by the rest of the turn of the cue loop, the
  loop never removes a cue, and the final sort keeps all of them.  The whole parser keeps
  the cue of a document with this timing line.
\<close>

theorem end_not_after_start_is_kept:
  "(prev \<le> 1 \<longrightarrow>
      parse_timings (str ''00:00:01.000 --> 00:00:00.000'') cue prev
        = (Some (cue\<lparr>startTime := 1, endTime := 0\<rparr>),
           [(''End timestamp is not greater than start timestamp.'', 30)]))
   \<and> (timestamp line (skip is_SPACE line 0) = (Some start, pos1, d1)
        \<and> separator_at line (skip is_SPACE line pos1) = None
        \<and> timestamp line (skip is_SPACE line (skip is_SPACE line pos1 + 3))
            = (Some end, pos5, d5)
        \<and> end \<le> start
      \<longrightarrow> (\<exists>c ds. parse_timings line c0 p0 = (Some c, ds)
              \<and> startTime c = start \<and> endTime c = end
              \<and> (''End timestamp is not greater than start timestamp.'', pos5 + 1) \<in> set ds))
   \<and> ((''End timestamp is not greater than start timestamp.'', col)
          \<in> set (snd (parse_timings line c0 p0))
        \<longrightarrow> fst (parse_timings line c0 p0) \<noteq> None)
   \<and> (parse_timings (lines ! p) c0
          (if ps_cues st \<noteq> [] then startTime (last (ps_cues st)) else 0) = (Some c1, ds1)
        \<and> cue_block m lines st p c0 = Inr st1
      \<longrightarrow> (\<exists>t k. ps_cues st1 = ps_cues st @ [c1\<lparr>cue_text := t, tree := k\<rparr>]))
   \<and> (cue_loop m lines st = Inr st2 \<longrightarrow> (\<exists>more. ps_cues st2 = ps_cues st @ more))
   \<and> (parse input m = Inr r \<longrightarrow>
        (\<exists>st3. parse_unsorted input m = Inr st3 \<and> set (cues r) = set (ps_cues st3)
               \<and> length (cues r) = length (ps_cues st3)))
   \<and> (case parse (str ''WEBVTT'' @ [10, 10] @ str ''00:00:01.000 --> 00:00:00.000'' @ [10]
                    @ str ''Hi'') Chapters of
          Inl e \<Rightarrow> False
        | Inr r \<Rightarrow>
            map (\<lambda>c. (startTime c, endTime c)) (cues r) = [(1, 0)]
            \<and> errors r = [(''End timestamp is not greater than start timestamp.'', 3, Some 30)])"
proof (intro conjI impI)
  assume "prev \<le> 1"
  then have "\<not> 1 < prev" by simp
  then show "parse_timings (str ''00:00:01.000 --> 00:00:00.000'') cue prev
        = (Some (cue\<lparr>startTime := 1, endTime := 0\<rparr>),
           [(''End timestamp is not greater than start timestamp.'', 30)])"
    by (simp add: string_eval timing_eval settings_eval Let_def)
next
  assume a: "timestamp line (skip is_SPACE line 0) = (Some start, pos1, d1)
        \<and> separator_at line (skip is_SPACE line pos1) = None
        \<and> timestamp line (skip is_SPACE line (skip is_SPACE line pos1 + 3))
            = (Some end, pos5, d5)
        \<and> end \<le> start"
  then have s: "timestamp line (skip is_SPACE line 0) = (Some start, pos1, d1)"
    and sep: "separator_at line (skip is_SPACE line pos1) = None"
    and e: "timestamp line (skip is_SPACE line (skip is_SPACE line pos1 + 3))
            = (Some end, pos5, d5)"
    and le: "end \<le> start"
    by simp_all
  from parse_timings_both_read[OF s sep e, of c0 p0] le
  show "\<exists>c ds. parse_timings line c0 p0 = (Some c, ds)
              \<and> startTime c = start \<and> endTime c = end
              \<and> (''End timestamp is not greater than start timestamp.'', pos5 + 1) \<in> set ds"
    by blast
next
  assume "(''End timestamp is not greater than start timestamp.'', col)
          \<in> set (snd (parse_timings line c0 p0))"
  then show "fst (parse_timings line c0 p0) \<noteq> None"
    by (rule end_before_start_keeps_cue)
next
  assume "parse_timings (lines ! p) c0
          (if ps_cues st \<noteq> [] then startTime (last (ps_cues st)) else 0) = (Some c1, ds1)
        \<and> cue_block m lines st p c0 = Inr st1"
  then show "\<exists>t k. ps_cues st1 = ps_cues st @ [c1\<lparr>cue_text := t, tree := k\<rparr>]"
    using cue_block_keeps by blast
next
  assume "cue_loop m lines st = Inr st2"
  then show "\<exists>more. ps_cues st2 = ps_cues st @ more" by (rule cue_loop_keeps)
next
  assume "parse input m = Inr r"
  then show "\<exists>st3. parse_unsorted input m = Inr st3 \<and> set (cues r) = set (ps_cues st3)
               \<and> length (cues r) = length (ps_cues st3)"
    by (auto simp: parse_def set_js_sort length_js_sort split: sum.splits)
next
  show "case parse (str ''WEBVTT'' @ [10, 10] @ str ''00:00:01.000 --> 00:00:00.000'' @ [10]
                    @ str ''Hi'') Chapters of
          Inl e \<Rightarrow> False
        | Inr r \<Rightarrow>
            map (\<lambda>c. (startTime c, endTime c)) (cues r) = [(1, 0)]
            \<and> errors r = [(''End timestamp is not greater than start timestamp.'', 3, Some 30)]"
    by (simp add: all_eval)
qed

theorem end_not_after_start_is_kept_witness:
  "parse_timings (str ''00:00:01.000 --> 00:00:00.000'') new_cue 0
     = (Some (new_cue\<lparr>startTime := 1, endTime := 0\<rparr>),
        [(''End timestamp is not greater than start timestamp.'', 30)])
   \<and> (\<exists>c ds. parse_timings (str ''00:02.000 --> 00:02.000'') new_cue 0 = (Some c, ds)
          \<and> startTime c = 2 \<and> endTime c = 2
          \<and> (''End timestamp is not greater than start timestamp.'', 24) \<in> set ds)
   \<and> fst (parse_timings (str ''00:00:01.000 --> 00:00:00.000'') new_cue 0) \<noteq> None"
proof -
  define l2 where "l2 = str ''00:02.000 --> 00:02.000''"
  have le: "(0::rat) \<le> 1" by simp
  have s: "timestamp l2 (skip is_SPACE l2 0) = (Some 2, 9, [])"
    unfolding l2_def by (simp add: string_eval timing_eval Let_def)
  have sep: "separator_at l2 (skip is_SPACE l2 9) = None"
    unfolding l2_def by (simp add: string_eval timing_eval Let_def)
  have e: "timestamp l2 (skip is_SPACE l2 (skip is_SPACE l2 9 + 3)) = (Some 2, 23, [])"
    unfolding l2_def by (simp add: string_eval timing_eval Let_def)
  have hyp: "timestamp l2 (skip is_SPACE l2 0) = (Some 2, 9, [])
        \<and> separator_at l2 (skip is_SPACE l2 9) = None
        \<and> timestamp l2 (skip is_SPACE l2 (skip is_SPACE l2 9 + 3)) = (Some 2, 23, [])
        \<and> (2::rat) \<le> 2"
    using s sep e by simp
  note main = end_not_after_start_is_kept
    [of 0 new_cue l2 2 9 "[]" 2 23 "[]" new_cue 0 30]
  from main le
  have eq: "parse_timings (str ''00:00:01.000 --> 00:00:00.000'') new_cue 0
     = (Some (new_cue\<lparr>startTime := 1, endTime := 0\<rparr>),
        [(''End timestamp is not greater than start timestamp.'', 30)])"
    by blast
  from main hyp
  have g: "\<exists>c ds. parse_timings l2 new_cue 0 = (Some c, ds)
          \<and> startTime c = 2 \<and> endTime c = 2
          \<and> (''End timestamp is not greater than start timestamp.'', 23 + 1) \<in> set ds"
    by blast
  from eq have "fst (parse_timings (str ''00:00:01.000 --> 00:00:00.000'') new_cue 0) \<noteq> None"
    by simp
  with eq g show ?thesis unfolding l2_def by simp
qed


section \<open>A size setting that fails validation\<close>

lemma setting_size_fails:
  "size_value_fails v \<Longrightarrow> \<exists>msg. setting_size col v cue = (cue, [(msg, col)])"
  by (auto simp: size_value_fails_def setting_size_def Let_def)

lemma size_key_distinct:
  "str ''size'' \<noteq> str ''vertical''" "str ''size'' \<noteq> str ''line''"
  "str ''size'' \<noteq> str ''position''" "str ''size'' \<noteq> []"
  by (simp_all add: str_def)

lemma setting_key_Nil: "setting_key [] = []"
  by (simp add: setting_key_def slice_def)

text \<open>
  C7 (as amended).  A \<open>size\<close> token whose value is not empty and fails validation
  raises a diagnostic and hands the cue on unchanged (its size and every other field),
  and the loop goes on with the next token.
\<close>

theorem failed_size_token_leaves_cue:
  assumes "setting_key tok = str ''size''" and "setting_value tok \<noteq> []"
    and "size_value_fails (setting_value tok)"
  shows "\<exists>msg. parseSettings_loop col (tok # rest) seen pa cue =
          (fst (parseSettings_loop col rest (seen @ [str ''size'']) pa cue),
           (if str ''size'' \<in> set seen then [(''Duplicate setting.'', col)] else [])
           @ [(msg, col)]
           @ snd (parseSettings_loop col rest (seen @ [str ''size'']) pa cue))"
proof -
  have tok: "tok \<noteq> []"
    using assms(1) setting_key_Nil size_key_distinct(4) by metis
  obtain msg where m: "setting_size col (setting_value tok) cue = (cue, [(msg, col)])"
    using setting_size_fails[OF assms(3)] by blast
  have "apply_setting col (str ''size'') (setting_value tok) pa cue = ((cue, pa), [(msg, col)])"
    by (simp add: apply_setting_def size_key_distinct m)
  with tok assms(1,2) show ?thesis
    by (auto simp: Let_def split: prod.splits)
qed

theorem failed_size_token_leaves_cue_witness:
  "cue_size (fst (parseSettings_loop 1 [str ''size:150%'', str ''align:start''] [] None new_cue))
     = Fin 100
   \<and> alignment (fst (parseSettings_loop 1 [str ''size:150%'', str ''align:start''] [] None new_cue))
     = str ''start''"
proof -
  have 1: "setting_key (str ''size:150%'') = str ''size''"
    by (simp add: string_eval settings_eval)
  have 2: "setting_value (str ''size:150%'') \<noteq> []"
    by (simp add: string_eval settings_eval)
  have 3: "size_value_fails (setting_value (str ''size:150%''))"
    by (simp add: size_value_fails_def string_eval settings_eval number_eval Let_def)
  have 4: "fst (parseSettings_loop 1 [str ''align:start''] ([] @ [str ''size'']) None new_cue)
            = new_cue\<lparr>alignment := str ''start''\<rparr>"
    by (simp add: string_eval settings_eval Let_def)
  from failed_size_token_leaves_cue[OF 1 2 3, of 1 "[str ''align:start'']" "[]" None new_cue] 4
  have "fst (parseSettings_loop 1 [str ''size:150%'', str ''align:start''] [] None new_cue)
          = new_cue\<lparr>alignment := str ''start''\<rparr>"
    by auto
  then show ?thesis by (simp add: new_cue_def)
qed

text \<open>
  C7 as stated fails for the empty value, which does not end in \<open>%\<close>: the token
  \<open>size:\<close> raises "No value for setting defined." and ends the settings of the line,
  so the token \<open>align:start\<close> after it is not processed.
\<close>

theorem empty_size_value_aborts_counterexample:
  "setting_key (str ''size:'') = str ''size''
   \<and> last_char (setting_value (str ''size:'')) \<noteq> Some (ch CHR ''%'')
   \<and> parseSettings 1 (str ''size: align:start'') new_cue
       = (new_cue, [(''No value for setting defined.'', 1)])
   \<and> parseSettings 1 (str ''align:start'') new_cue = (new_cue\<lparr>alignment := str ''start''\<rparr>, [])"
  by (simp add: string_eval settings_eval Let_def)


section \<open>The final sort\<close>

text \<open>
  C8.  The cues that \<open>parse\<close> returns are the cues met by the cue loop, in ascending
  order of \<open>(startTime, endTime)\<close>; cues of equal start and end time stand in the order
  in which the loop met them.
\<close>

theorem parse_cues_sorted_stable:
  assumes "parse input m = Inr r"
  shows "\<exists>st. parse_unsorted input m = Inr st
            \<and> set (cues r) = set (ps_cues st) \<and> length (cues r) = length (ps_cues st)
            \<and> sorted_wrt cue_key_le (cues r)
            \<and> (\<forall>s e. filter (\<lambda>c. startTime c = s \<and> endTime c = e) (cues r)
                     = filter (\<lambda>c. startTime c = s \<and> endTime c = e) (ps_cues st))"
proof (cases "parse_unsorted input m")
  case (Inl e)
  with assms show ?thesis by (simp add: parse_def)
next
  case (Inr st)
  with assms have "cues r = js_sort cue_cmp (ps_cues st)"
    by (auto simp: parse_def)
  with Inr show ?thesis
    by (simp add: sorted_js_sort filter_js_sort set_js_sort length_js_sort)
qed

theorem parse_cues_sorted_stable_witness:
  "\<exists>r. parse (str ''WEBVTT'' @ [10, 10]
               @ str ''00:02.000 --> 00:03.000'' @ [10] @ str ''a'' @ [10, 10]
               @ str ''00:01.000 --> 00:02.000'' @ [10] @ str ''b'' @ [10, 10]
               @ str ''00:02.000 --> 00:03.000'' @ [10] @ str ''c'') Metadata = Inr r
        \<and> map cue_text (cues r) = [str ''b'', str ''a'', str ''c'']
        \<and> sorted_wrt cue_key_le (cues r)
        \<and> map cue_text (filter (\<lambda>c. startTime c = 2 \<and> endTime c = 3) (cues r))
            = [str ''a'', str ''c'']"
proof -
  define input where "input = str ''WEBVTT'' @ [10, 10]
               @ str ''00:02.000 --> 00:03.000'' @ [10] @ str ''a'' @ [10, 10]
               @ str ''00:01.000 --> 00:02.000'' @ [10] @ str ''b'' @ [10, 10]
               @ str ''00:02.000 --> 00:03.000'' @ [10] @ str ''c''"
  define texts where "texts = [str ''b'', str ''a'', str ''c'']"
  define same where "same = [str ''a'', str ''c'']"
  have "\<exists>r. parse input Metadata = Inr r
          \<and> map cue_text (cues r) = texts
          \<and> map cue_text (filter (\<lambda>c. startTime c = 2 \<and> endTime c = 3) (cues r)) = same"
    unfolding input_def texts_def same_def by (simp add: all_eval)
  then obtain r where r: "parse input Metadata = Inr r"
    and t: "map cue_text (cues r) = texts"
    and f: "map cue_text (filter (\<lambda>c. startTime c = 2 \<and> endTime c = 3) (cues r)) = same"
    by blast
  from parse_cues_sorted_stable[OF r] have "sorted_wrt cue_key_le (cues r)" by blast
  with r t f have "\<exists>r. parse input Metadata = Inr r
        \<and> map cue_text (cues r) = texts
        \<and> sorted_wrt cue_key_le (cues r)
        \<and> map cue_text (filter (\<lambda>c. startTime c = 2 \<and> endTime c = 3) (cues r)) = same"
    by blast
  then show ?thesis unfolding input_def texts_def same_def .
qed


section \<open>Serializing a cue with default settings\<close>








section \<open>The identifier line of a serialized cue\<close>

lemma cue_block_new_cue_id:
  assumes "cue_block m lines st p new_cue = Inr st'"
  shows "ps_cues st' = ps_cues st \<or> (\<exists>x. ps_cues st' = ps_cues st @ [x] \<and> cue_id x = Some [])"
proof -
  from cue_block_cues[OF assms] show ?thesis
  proof
    assume "ps_cues st' = ps_cues st"
    then show ?thesis by simp
  next
    assume "\<exists>c1 ds prev t k. parse_timings (lines ! p) new_cue prev = (Some c1, ds)
               \<and> ps_cues st' = ps_cues st @ [c1\<lparr>cue_text := t, tree := k\<rparr>]"
    then obtain c1 ds prev t k where pt: "parse_timings (lines ! p) new_cue prev = (Some c1, ds)"
      and ps: "ps_cues st' = ps_cues st @ [c1\<lparr>cue_text := t, tree := k\<rparr>]"
      by blast
    have "cue_id c1 = Some []" using parse_timings_frame[OF pt] by (simp add: new_cue_def)
    with ps show ?thesis by simp
  qed
qed

lemma cue_turn_no_identifier:
  assumes "cue_turn m lines st = Inr (st', stop)"
    and "p = (if alreadyCollected st then linePos st
              else skip_blank (drop (linePos st) lines) (linePos st))"
    and "p < length lines" and "has_arrow (lines ! p)"
  shows "ps_cues st' = ps_cues st \<or> (\<exists>x. ps_cues st' = ps_cues st @ [x] \<and> cue_id x = Some [])"
proof -
  from assms obtain st1 where "cue_block m lines st p new_cue = Inr st1" and "st' = st1"
    unfolding cue_turn_def Let_def by (auto split: if_splits sum.splits)
  then show ?thesis using cue_block_new_cue_id by blast
qed

lemma parse_cue_ids:
  assumes "parse input m = Inr r"
  shows "\<forall>x \<in> set (cues r). cue_id x \<noteq> None"
  using assms
proof (rule parse_cues)
  fix l i prev c1 ds t k
  assume "parse_timings l (new_cue\<lparr>cue_id := Some i\<rparr>) prev = (Some c1, ds)"
  from parse_timings_frame[OF this]
  show "cue_id (c1\<lparr>cue_text := t, tree := k\<rparr>) \<noteq> None" by simp
qed

text \<open>
  C10.  \<open>#serializeCue\<close> writes the identifier and a newline in front of the timing
  line whenever \<open>cue.id\<close> is neither null nor undefined, also for the empty string:
  a cue with identifier \<open>""\<close> is serialized as a newline followed by the timing line.
  No cue returned by \<open>parse\<close> has a null identifier.  A turn of the cue loop on a block
  that starts with its timing line (no identifier line) either drops the block or appends
  a cue with identifier \<open>""\<close>, whose serialization begins with a blank line.
\<close>

theorem id_line_emitted_for_empty_id:
  "(cue_id c = Some i \<longrightarrow>
      serializeCue c = i @ [10] @ timing_line c @ [10] @ serializeTree (tree c) @ [10, 10])
   \<and> (cue_id c = Some [] \<longrightarrow>
      serializeCue c = [10] @ timing_line c @ [10] @ serializeTree (tree c) @ [10, 10])
   \<and> (parse input m = Inr r \<longrightarrow> (\<forall>x \<in> set (cues r). cue_id x \<noteq> None))
   \<and> (cue_turn m lines st = Inr (st', stop)
        \<and> p = (if alreadyCollected st then linePos st
                else skip_blank (drop (linePos st) lines) (linePos st))
        \<and> p < length lines \<and> has_arrow (lines ! p)
      \<longrightarrow> ps_cues st' = ps_cues st
          \<or> (\<exists>x. ps_cues st' = ps_cues st @ [x] \<and> cue_id x = Some []
                \<and> take 1 (serializeCue x) = [10]))
   \<and> (case parse (str ''WEBVTT'' @ [10, 10] @ str ''00:00.000 --> 00:01.000'' @ [10]
                    @ str ''Hi'') Metadata of
          Inl e \<Rightarrow> False
        | Inr r0 \<Rightarrow>
            map cue_id (cues r0) = [Some []]
            \<and> serialize (cues r0) None
                = str ''WEBVTT'' @ [10, 10, 10] @ str ''00:00.000 --> 00:01.000'' @ [10]
                  @ str ''Hi'' @ [10, 10])"
proof (intro conjI impI)
  assume "cue_id c = Some i"
  then show "serializeCue c = i @ [10] @ timing_line c @ [10] @ serializeTree (tree c) @ [10, 10]"
    by (simp add: serializeCue_def timing_line_def)
next
  assume "cue_id c = Some []"
  then show "serializeCue c = [10] @ timing_line c @ [10] @ serializeTree (tree c) @ [10, 10]"
    by (simp add: serializeCue_def timing_line_def)
next
  assume "parse input m = Inr r"
  then show "\<forall>x \<in> set (cues r). cue_id x \<noteq> None" by (rule parse_cue_ids)
next
  assume a: "cue_turn m lines st = Inr (st', stop)
        \<and> p = (if alreadyCollected st then linePos st
                else skip_blank (drop (linePos st) lines) (linePos st))
        \<and> p < length lines \<and> has_arrow (lines ! p)"
  then have "ps_cues st' = ps_cues st \<or> (\<exists>x. ps_cues st' = ps_cues st @ [x] \<and> cue_id x = Some [])"
    using cue_turn_no_identifier by blast
  moreover have "\<And>x. cue_id x = Some [] \<Longrightarrow> take 1 (serializeCue x) = [10]"
    by (simp add: serializeCue_def)
  ultimately show "ps_cues st' = ps_cues st
          \<or> (\<exists>x. ps_cues st' = ps_cues st @ [x] \<and> cue_id x = Some []
                \<and> take 1 (serializeCue x) = [10])"
    by blast
next
  have one: "serializeTimestamp 1 = str ''00:01.000''"
    using serializeTimestamp_fields[of 0 1 0 0]
    by (simp add: padStart0_def nat_toString_def dec_digits_small str_def numeral_2_eq_2)
  have p: "parse (str ''WEBVTT'' @ [10, 10] @ str ''00:00.000 --> 00:01.000'' @ [10]
                    @ str ''Hi'') Metadata
       = Inr \<lparr>cues = [new_cue\<lparr>startTime := 0, endTime := 1,
                cue_text := str ''Hi'', tree := [Text (str ''Hi'')]\<rparr>], errors = [], styles = []\<rparr>"
    by (simp add: all_eval)
  show "case parse (str ''WEBVTT'' @ [10, 10] @ str ''00:00.000 --> 00:01.000'' @ [10]
                    @ str ''Hi'') Metadata of
          Inl e \<Rightarrow> False
        | Inr r0 \<Rightarrow>
            map cue_id (cues r0) = [Some []]
            \<and> serialize (cues r0) None
                = str ''WEBVTT'' @ [10, 10, 10] @ str ''00:00.000 --> 00:01.000'' @ [10]
                  @ str ''Hi'' @ [10, 10]"
    unfolding p
    by (simp add: serialize_def serializeCue_def serializeTimestamp_zero one
          serializeCueSettings_def replaceAll_def new_cue_def str_def ch_def)
qed

theorem id_line_emitted_for_empty_id_witness:
  "\<exists>r c. parse (str ''WEBVTT'' @ [10, 10] @ str ''00:00.000 --> 00:01.000'' @ [10]
                 @ str ''Hi'') Metadata = Inr r
         \<and> cues r = [c] \<and> cue_id c = Some []
         \<and> serializeCue c = [10] @ timing_line c @ [10] @ serializeTree (tree c) @ [10, 10]"
proof -
  define input where "input = str ''WEBVTT'' @ [10, 10] @ str ''00:00.000 --> 00:01.000''
                 @ [10] @ str ''Hi''"
  have "\<exists>r c. parse input Metadata = Inr r \<and> cues r = [c] \<and> cue_id c = Some []"
    unfolding input_def by (simp add: all_eval)
  then obtain r c where r: "parse input Metadata = Inr r" and c: "cues r = [c]"
    and i: "cue_id c = Some []"
    by blast
  from id_line_emitted_for_empty_id[of c "[]" input Metadata r] r c
  have "cue_id c \<noteq> None" by simp
  moreover from id_line_emitted_for_empty_id[of c "[]"] i
  have "serializeCue c = [10] @ timing_line c @ [10] @ serializeTree (tree c) @ [10, 10]"
    by blast
  ultimately have "\<exists>r c. parse input Metadata = Inr r
         \<and> cues r = [c] \<and> cue_id c = Some []
         \<and> serializeCue c = [10] @ timing_line c @ [10] @ serializeTree (tree c) @ [10, 10]"
    using r c i by blast
  then show ?thesis unfolding input_def .
qed


section \<open>The field nonSerializable\<close>









end
